theory Spec2Isabelle
  imports Complex_Main
begin

section \<open>JavaScript numbers and the option values of a call\<close>

text \<open>
  A timeout option is a JavaScript number or \<^verbatim>\<open>undefined\<close>. The finite numbers are
  taken as reals (rounding of doubles plays no part in what follows: \<^verbatim>\<open>Math.abs\<close>,
  \<^verbatim>\<open>Math.trunc\<close>, \<^verbatim>\<open>Math.max\<close>, \<^verbatim>\<open>Math.min\<close> and \<^verbatim>\<open>Math.ceil\<close> are exact);
  the three special values are kept apart. \<^verbatim>\<open>undefined\<close> is \<open>None\<close>.
\<close>

datatype jsnum = NaN | PosInf | NegInf | Fin real

fun Number_isNaN :: "jsnum \<Rightarrow> bool" where
  "Number_isNaN NaN = True"
| "Number_isNaN _ = False"

fun Number_isFinite :: "jsnum \<Rightarrow> bool" where
  "Number_isFinite (Fin _) = True"
| "Number_isFinite _ = False"

fun Math_abs :: "jsnum \<Rightarrow> jsnum" where
  "Math_abs NaN = NaN"
| "Math_abs PosInf = PosInf"
| "Math_abs NegInf = PosInf"
| "Math_abs (Fin x) = Fin \<bar>x\<bar>"

definition trunc :: "real \<Rightarrow> real" where
  "trunc x = (if 0 \<le> x then of_int \<lfloor>x\<rfloor> else of_int \<lceil>x\<rceil>)"

fun Math_trunc :: "jsnum \<Rightarrow> jsnum" where
  "Math_trunc (Fin x) = Fin (trunc x)"
| "Math_trunc v = v"

fun Math_ceil :: "jsnum \<Rightarrow> jsnum" where
  "Math_ceil (Fin x) = Fin (of_int \<lceil>x\<rceil>)"
| "Math_ceil v = v"

fun Math_max :: "jsnum \<Rightarrow> jsnum \<Rightarrow> jsnum" where
  "Math_max NaN _ = NaN"
| "Math_max _ NaN = NaN"
| "Math_max PosInf _ = PosInf"
| "Math_max _ PosInf = PosInf"
| "Math_max NegInf b = b"
| "Math_max a NegInf = a"
| "Math_max (Fin x) (Fin y) = Fin (max x y)"

fun Math_min :: "jsnum \<Rightarrow> jsnum \<Rightarrow> jsnum" where
  "Math_min NaN _ = NaN"
| "Math_min _ NaN = NaN"
| "Math_min NegInf _ = NegInf"
| "Math_min _ NegInf = NegInf"
| "Math_min PosInf b = b"
| "Math_min a PosInf = a"
| "Math_min (Fin x) (Fin y) = Fin (min x y)"

text \<open>The comparison \<^verbatim>\<open>a <= b\<close>: false as soon as one side is \<^verbatim>\<open>NaN\<close>.\<close>

fun js_le :: "jsnum \<Rightarrow> jsnum \<Rightarrow> bool" where
  "js_le NaN _ = False"
| "js_le _ NaN = False"
| "js_le NegInf _ = True"
| "js_le _ PosInf = True"
| "js_le PosInf _ = False"
| "js_le _ NegInf = False"
| "js_le (Fin x) (Fin y) = (x \<le> y)"

text \<open>The comparison \<^verbatim>\<open>a < b\<close>.\<close>

fun js_lt :: "jsnum \<Rightarrow> jsnum \<Rightarrow> bool" where
  "js_lt NaN _ = False"
| "js_lt _ NaN = False"
| "js_lt PosInf _ = False"
| "js_lt _ NegInf = False"
| "js_lt NegInf _ = True"
| "js_lt _ PosInf = True"
| "js_lt (Fin x) (Fin y) = (x < y)"

text \<open>The subtraction \<^verbatim>\<open>a - b\<close> (\<^verbatim>\<open>Infinity - Infinity\<close> is \<^verbatim>\<open>NaN\<close>).\<close>

fun js_minus :: "jsnum \<Rightarrow> jsnum \<Rightarrow> jsnum" where
  "js_minus NaN _ = NaN"
| "js_minus _ NaN = NaN"
| "js_minus PosInf PosInf = NaN"
| "js_minus NegInf NegInf = NaN"
| "js_minus PosInf _ = PosInf"
| "js_minus NegInf _ = NegInf"
| "js_minus (Fin _) PosInf = NegInf"
| "js_minus (Fin _) NegInf = PosInf"
| "js_minus (Fin x) (Fin y) = Fin (x - y)"

section \<open>The timeout normalizer of the synchronous operations\<close>

text \<open>
  \<^verbatim>\<open>normalizeTimeout\<close> of \<^verbatim>\<open>index.js\<close>: \<^verbatim>\<open>undefined\<close> and \<^verbatim>\<open>NaN\<close> give \<^verbatim>\<open>undefined\<close>;
  otherwise \<^verbatim>\<open>Math.max(1, Math.trunc(Math.abs(timeout)))\<close>, and \<^verbatim>\<open>undefined\<close> again when
  that is not finite.
\<close>

definition normalizeTimeout :: "jsnum option \<Rightarrow> jsnum option" where
  "normalizeTimeout timeout =
     (case timeout of
        None \<Rightarrow> None
      | Some t \<Rightarrow>
          if Number_isNaN t then None
          else
            let normalized = Math_max (Fin 1) (Math_trunc (Math_abs t))
            in if \<not> Number_isFinite normalized then None else Some normalized)"

section \<open>Errors\<close>

text \<open>
  A thrown value is an \<^verbatim>\<open>Error\<close> object; the fields the code reads or sets are its
  \<^verbatim>\<open>name\<close>, \<^verbatim>\<open>message\<close> and \<^verbatim>\<open>code\<close>. A throw is the left summand of the
  result of an operation.
\<close>

record js_error =
  name :: string
  message :: string
  code :: "string option"

text \<open>
  \<^verbatim>\<open>isTimeoutError\<close> is imported from the package \<^verbatim>\<open>function-timeout\<close>: it recognises the
  error by its code, the code that \<^verbatim>\<open>matches\<close> also gives to the error it builds itself.
\<close>

definition isTimeoutError :: "js_error \<Rightarrow> bool" where
  "isTimeoutError error = (code error = Some ''ERR_SCRIPT_EXECUTION_TIMEOUT'')"

text \<open>The error thrown by the host when a script exceeds its \<^verbatim>\<open>timeout\<close>.\<close>

definition script_timeout_error :: js_error where
  "script_timeout_error =
     \<lparr>name = ''Error'', message = ''Script execution timed out'',
      code = Some ''ERR_SCRIPT_EXECUTION_TIMEOUT''\<rparr>"

text \<open>The error thrown by \<^verbatim>\<open>node:vm\<close> for a \<^verbatim>\<open>timeout\<close> option it does not accept.\<close>

definition out_of_range_error :: js_error where
  "out_of_range_error =
     \<lparr>name = ''RangeError'', message = ''The value of options.timeout is out of range.'',
      code = Some ''ERR_OUT_OF_RANGE''\<rparr>"

text \<open>The error \<^verbatim>\<open>matches\<close> builds when the total budget is used up and \<^verbatim>\<open>throwOnTimeout\<close> is set.\<close>

definition timeoutError :: js_error where
  "timeoutError =
     \<lparr>name = ''Error'', message = ''Script execution timed out'',
      code = Some ''ERR_SCRIPT_EXECUTION_TIMEOUT''\<rparr>"

text \<open>The configuration errors of \<^verbatim>\<open>matches\<close> and \<^verbatim>\<open>matchesAsync\<close>.\<close>

definition global_flag_error :: js_error where
  "global_flag_error =
     \<lparr>name = ''Error'',
      message = ''The regex must have the global flag, otherwise, use `firstMatch()` instead'',
      code = None\<rparr>"

definition global_flag_error_async :: js_error where
  "global_flag_error_async =
     \<lparr>name = ''Error'',
      message = ''The regex must have the global flag, otherwise, use `firstMatchAsync()` instead'',
      code = None\<rparr>"

section \<open>Patterns, the store, and the matching engine\<close>

text \<open>
  A \<^verbatim>\<open>RegExp\<close> object has a source text, a flag string and the mutable position
  \<^verbatim>\<open>lastIndex\<close>. Objects live in a store and are passed by reference, so that a write to
  the caller's object would be seen: a reference is an index into the store.
\<close>

record regexp =
  source :: string
  flags :: string
  lastIndex :: nat

type_synonym ref = nat
type_synonym heap = "regexp list"

definition global :: "regexp \<Rightarrow> bool" where
  "global r = (CHR ''g'' \<in> set (flags r))"

text \<open>
  \<^verbatim>\<open>structuredClone(regex)\<close> allocates a new object with the same source and flags; the
  structured-clone algorithm does not keep \<^verbatim>\<open>lastIndex\<close>. The reference passed in is one
  the caller holds (\<open>r < length h\<close>).
\<close>

definition structuredClone :: "heap \<Rightarrow> ref \<Rightarrow> ref \<times> heap" where
  "structuredClone h r = (length h, h @ [(h ! r)\<lparr>lastIndex := 0\<rparr>])"

text \<open>
  The raw result of the engine (a \<^verbatim>\<open>RegExpExecArray\<close>): the array elements (the matched
  text, then one entry per capture group, \<^verbatim>\<open>undefined\<close> for a group that took no part),
  and the properties \<^verbatim>\<open>index\<close>, \<^verbatim>\<open>groups\<close> (\<^verbatim>\<open>undefined\<close> when the pattern declares no
  named group) and \<^verbatim>\<open>input\<close>.
\<close>

record exec_array =
  raw_elems :: "string option list"
  raw_index :: nat
  raw_groups :: "(string \<times> string option) list option"
  raw_input :: string

text \<open>
  A computation handed to a runner: what it returns or throws when it runs to its end,
  and the milliseconds it needs.
\<close>

record 'a timed =
  returns :: "js_error + 'a"
  cost :: real

text \<open>
  One call of \<^verbatim>\<open>next\<close> on the iterator of \<^verbatim>\<open>String.prototype.matchAll\<close>:
  \<open>Inr (Some v)\<close> is \<^verbatim>\<open>{value: v, done: false}\<close>, \<open>Inr None\<close> is \<^verbatim>\<open>{done: true}\<close>;
  \<open>elapsed\<close> is what the clock of \<^verbatim>\<open>timeSpan\<close> reads for the call.
\<close>

record attempt =
  step :: "exec_array option timed"
  elapsed :: real

text \<open>
  The regular-expression engine is not part of this program; it is a parameter.
  \<open>re_test\<close> and \<open>re_exec\<close> are \<^verbatim>\<open>RegExp.prototype.test\<close> and \<^verbatim>\<open>exec\<close> on an object in
  the given state: the computation, and the \<^verbatim>\<open>lastIndex\<close> they leave in the object.
  \<open>re_matchAll\<close> gives the successive steps of the iterator of \<^verbatim>\<open>matchAll\<close>, the last of
  which reports \<^verbatim>\<open>done\<close> (every step moves the position forward, so they are finitely
  many); an iterator whose steps are used up reports \<^verbatim>\<open>done\<close>.
  The host's worker threads are a parameter as well: \<open>worker_startup\<close> is the time from
  the dispatch of a call to a worker until the worker's function starts to run.
\<close>

record engine =
  re_test :: "regexp \<Rightarrow> string \<Rightarrow> bool timed \<times> nat"
  re_exec :: "regexp \<Rightarrow> string \<Rightarrow> exec_array option timed \<times> nat"
  re_matchAll :: "regexp \<Rightarrow> string \<Rightarrow> attempt list"
  worker_startup :: real

definition RegExp_test :: "engine \<Rightarrow> heap \<Rightarrow> ref \<Rightarrow> string \<Rightarrow> bool timed \<times> heap" where
  "RegExp_test eng h r s =
     (let (c, li) = re_test eng (h ! r) s in (c, h[r := (h ! r)\<lparr>lastIndex := li\<rparr>]))"

definition RegExp_exec :: "engine \<Rightarrow> heap \<Rightarrow> ref \<Rightarrow> string \<Rightarrow> exec_array option timed \<times> heap" where
  "RegExp_exec eng h r s =
     (let (c, li) = re_exec eng (h ! r) s in (c, h[r := (h ! r)\<lparr>lastIndex := li\<rparr>]))"

text \<open>
  \<^verbatim>\<open>functionTimeout(f, {timeout, context})()\<close>, from the package \<^verbatim>\<open>function-timeout\<close>, runs
  \<open>f\<close> as a script of \<^verbatim>\<open>node:vm\<close> with the option \<^verbatim>\<open>timeout\<close>. With no timeout it runs
  \<open>f\<close>. A timeout has to be a whole number from 1 to \<open>2\<^sup>3\<^sup>2 - 1\<close> (\<^verbatim>\<open>validateUint32\<close> of the
  host), or a \<^verbatim>\<open>RangeError\<close> is thrown and \<open>f\<close> does not run; with such a timeout the
  timeout error is thrown when \<open>f\<close> needs longer, and otherwise the call returns or
  throws what \<open>f\<close> does.
\<close>

definition validateUint32 :: "jsnum \<Rightarrow> bool" where
  "validateUint32 t =
     (case t of
        Fin x \<Rightarrow> x = real_of_int \<lfloor>x\<rfloor> \<and> 1 \<le> x \<and> x \<le> 4294967295
      | _ \<Rightarrow> False)"

definition functionTimeout :: "jsnum option \<Rightarrow> 'a timed \<Rightarrow> js_error + 'a" where
  "functionTimeout timeout f =
     (case timeout of
        None \<Rightarrow> returns f
      | Some t \<Rightarrow>
          if \<not> validateUint32 t then Inl out_of_range_error
          else if js_lt t (Fin (cost f)) then Inl script_timeout_error else returns f)"

section \<open>The match record\<close>

record Match =
  match :: "string option"
  index :: nat
  groups :: "string option list"
  namedGroups :: "(string \<times> string option) list"
  input :: string

text \<open>
  \<^verbatim>\<open>resultToMatch\<close>: \<^verbatim>\<open>result[0]\<close>, \<^verbatim>\<open>result.index\<close>, \<^verbatim>\<open>result.slice(1)\<close>,
  \<^verbatim>\<open>result.groups ?? {}\<close> and \<^verbatim>\<open>result.input\<close>. Reading element 0 of an empty array
  gives \<^verbatim>\<open>undefined\<close>. An object is the list of its properties in insertion order.
\<close>

definition resultToMatch :: "exec_array \<Rightarrow> Match" where
  "resultToMatch result =
     \<lparr>match = (case raw_elems result of [] \<Rightarrow> None | x # _ \<Rightarrow> x),
      index = raw_index result,
      groups = drop 1 (raw_elems result),
      namedGroups = (case raw_groups result of None \<Rightarrow> [] | Some g \<Rightarrow> g),
      input = raw_input result\<rparr>"

section \<open>The synchronous operations\<close>

record options =
  timeout :: "jsnum option"
  throwOnTimeout :: bool

record matches_options = options +
  matchTimeout :: "jsnum option"

definition isMatch :: "engine \<Rightarrow> heap \<Rightarrow> ref \<Rightarrow> string \<Rightarrow> options \<Rightarrow> (js_error + bool) \<times> heap" where
  "isMatch eng h regex string opts =
     (let (clone, h1) = structuredClone h regex;
          (f, h2) = RegExp_test eng h1 clone string
      in (case functionTimeout (normalizeTimeout (timeout opts)) f of
            Inr v \<Rightarrow> Inr v
          | Inl error \<Rightarrow>
              if isTimeoutError error \<and> \<not> throwOnTimeout opts then Inr False else Inl error,
          h2))"

definition firstMatch ::
  "engine \<Rightarrow> heap \<Rightarrow> ref \<Rightarrow> string \<Rightarrow> options \<Rightarrow> (js_error + Match option) \<times> heap" where
  "firstMatch eng h regex string opts =
     (let (clone, h1) = structuredClone h regex;
          (f, h2) = RegExp_exec eng h1 clone string
      in (case functionTimeout (normalizeTimeout (timeout opts)) f of
            Inr res \<Rightarrow>
              (case res of None \<Rightarrow> Inr None | Some r \<Rightarrow> Inr (Some (resultToMatch r)))
          | Inl error \<Rightarrow>
              if isTimeoutError error \<and> \<not> throwOnTimeout opts then Inr None else Inl error,
          h2))"

subsection \<open>The enumeration \<^verbatim>\<open>matches\<close>\<close>

text \<open>
  \<^verbatim>\<open>matches\<close> checks the global flag and returns an object whose \<^verbatim>\<open>[Symbol.iterator]\<close>
  is a generator method. The object is the closure of the arguments (the two timeouts
  with their default \<^verbatim>\<open>Number.POSITIVE_INFINITY\<close>); the engine takes no part in the call.
\<close>

record iterable =
  it_regex :: ref
  it_string :: string
  it_timeout :: jsnum
  it_matchTimeout :: jsnum
  it_throwOnTimeout :: bool

definition matches :: "heap \<Rightarrow> ref \<Rightarrow> string \<Rightarrow> matches_options \<Rightarrow> js_error + iterable" where
  "matches h regex string opts =
     (if \<not> global (h ! regex) then Inl global_flag_error
      else Inr \<lparr>it_regex = regex, it_string = string,
                it_timeout = (case timeout opts of None \<Rightarrow> PosInf | Some t \<Rightarrow> t),
                it_matchTimeout = (case matchTimeout opts of None \<Rightarrow> PosInf | Some t \<Rightarrow> t),
                it_throwOnTimeout = throwOnTimeout opts\<rparr>)"

text \<open>
  A generator is suspended at its start, suspended at the \<^verbatim>\<open>yield\<close> (holding the iterator
  of \<^verbatim>\<open>matchAll\<close>, that is the steps it has left, and \<^verbatim>\<open>remainingTimeout\<close>), or completed.
\<close>

datatype gen_state = Start | Suspended "attempt list" jsnum | Completed

record generator =
  closure :: iterable
  state :: gen_state

text \<open>What a call of \<^verbatim>\<open>next\<close> gives: a yielded value, \<^verbatim>\<open>done\<close>, or a throw.\<close>

datatype 'a iter_result = Yield 'a | Done | Throw js_error

definition symbol_iterator :: "iterable \<Rightarrow> generator" where
  "symbol_iterator it = \<lparr>closure = it, state = Start\<rparr>"

text \<open>The test at the head of the loop: the total timeout is exceeded.\<close>

definition budget_exhausted :: "iterable \<Rightarrow> jsnum \<Rightarrow> bool" where
  "budget_exhausted it remainingTimeout =
     (it_timeout it \<noteq> PosInf \<and> js_le remainingTimeout (Fin 0))"

text \<open>The timeout handed to \<^verbatim>\<open>functionTimeout\<close> for one call of \<^verbatim>\<open>matches.next()\<close>.\<close>

definition normalizedTimeout :: "iterable \<Rightarrow> jsnum \<Rightarrow> jsnum option" where
  "normalizedTimeout it remainingTimeout =
     (if it_timeout it \<noteq> PosInf \<or> it_matchTimeout it \<noteq> PosInf
      then normalizeTimeout (Some (Math_min remainingTimeout (it_matchTimeout it)))
      else None)"

text \<open>
  One turn of \<^verbatim>\<open>while (true)\<close>, inside the \<^verbatim>\<open>try\<close>, from the head of the loop to the next
  \<^verbatim>\<open>yield\<close>, \<^verbatim>\<open>return\<close>, \<^verbatim>\<open>break\<close> or throw.
\<close>

definition loop_turn :: "iterable \<Rightarrow> attempt list \<Rightarrow> jsnum \<Rightarrow> Match iter_result \<times> gen_state" where
  "loop_turn it ms remainingTimeout =
     (if budget_exhausted it remainingTimeout then
        (if it_throwOnTimeout it then (Throw timeoutError, Completed) else (Done, Completed))
      else
        (case ms of
           [] \<Rightarrow> (Done, Completed)
         | a # rest \<Rightarrow>
             (case functionTimeout (normalizedTimeout it remainingTimeout) (step a) of
                Inl error \<Rightarrow> (Throw error, Completed)
              | Inr r \<Rightarrow>
                  (let remainingTimeout' =
                         js_minus remainingTimeout (Math_ceil (Fin (elapsed a)))
                   in case r of
                        None \<Rightarrow> (Done, Completed)
                      | Some v \<Rightarrow> (Yield (resultToMatch v), Suspended rest remainingTimeout')))))"

text \<open>The \<^verbatim>\<open>catch\<close> around the loop.\<close>

definition catch_clause :: "iterable \<Rightarrow> Match iter_result \<times> gen_state \<Rightarrow> Match iter_result \<times> gen_state" where
  "catch_clause it r =
     (case fst r of
        Throw error \<Rightarrow>
          if isTimeoutError error \<and> \<not> it_throwOnTimeout it then (Done, Completed)
          else (Throw error, Completed)
      | _ \<Rightarrow> r)"

definition resume :: "iterable \<Rightarrow> attempt list \<Rightarrow> jsnum \<Rightarrow> Match iter_result \<times> gen_state" where
  "resume it ms remainingTimeout = catch_clause it (loop_turn it ms remainingTimeout)"

text \<open>
  \<^verbatim>\<open>next()\<close> on the generator. The first call clones the pattern, makes the iterator of
  \<^verbatim>\<open>matchAll\<close> on the clone and sets \<^verbatim>\<open>remainingTimeout = timeout\<close>.
\<close>

definition generator_next ::
  "engine \<Rightarrow> heap \<Rightarrow> generator \<Rightarrow> Match iter_result \<times> generator \<times> heap" where
  "generator_next eng h g =
     (case state g of
        Start \<Rightarrow>
          (let (clone, h1) = structuredClone h (it_regex (closure g));
               ms = re_matchAll eng (h1 ! clone) (it_string (closure g));
               (r, st) = resume (closure g) ms (it_timeout (closure g))
           in (r, g\<lparr>state := st\<rparr>, h1))
      | Suspended ms remainingTimeout \<Rightarrow>
          (let (r, st) = resume (closure g) ms remainingTimeout
           in (r, g\<lparr>state := st\<rparr>, h))
      | Completed \<Rightarrow> (Done, g, h))"

text \<open>\<^verbatim>\<open>return()\<close> on the generator: the consumer stops early.\<close>

definition generator_return :: "generator \<Rightarrow> generator" where
  "generator_return g = g\<lparr>state := Completed\<rparr>"

text \<open>
  Consuming a generator to its end, as \<^verbatim>\<open>[...iterable]\<close> and \<^verbatim>\<open>for ... of\<close> do: the values
  yielded, and the error if the enumeration ended by a throw.
\<close>

function drain :: "iterable \<Rightarrow> attempt list \<Rightarrow> jsnum \<Rightarrow> Match list \<times> js_error option" where
  "drain it ms remainingTimeout =
     (case resume it ms remainingTimeout of
        (Yield m, Suspended ms' remainingTimeout') \<Rightarrow>
          (let (xs, e) = drain it ms' remainingTimeout' in (m # xs, e))
      | (Yield m, _) \<Rightarrow> ([m], None)
      | (Done, _) \<Rightarrow> ([], None)
      | (Throw e, _) \<Rightarrow> ([], Some e))"
  by pat_completeness auto
termination
proof (relation "measure (\<lambda>(it, ms, r). length ms)")
  show "wf (measure (\<lambda>(it, ms, r). length ms))"
    by simp
next
  fix it :: iterable and ms remainingTimeout x y m st ms' remainingTimeout'
  assume "(x, y) = resume it ms remainingTimeout" "x = Yield m"
    and "y = Suspended ms' remainingTimeout'"
  then have "resume it ms remainingTimeout = (Yield m, Suspended ms' remainingTimeout')"
    by simp
  then have "length ms' < length ms"
    by (auto simp: resume_def catch_clause_def loop_turn_def Let_def
        split: if_splits list.splits sum.splits option.splits)
  then show "((it, ms', remainingTimeout'), (it, ms, remainingTimeout))
      \<in> measure (\<lambda>(it, ms, r). length ms)"
    by simp
qed

text \<open>
  \<^verbatim>\<open>[...iterable]\<close>: a new generator from \<^verbatim>\<open>[Symbol.iterator]()\<close>, advanced until it is
  done or throws.
\<close>

definition spread :: "engine \<Rightarrow> heap \<Rightarrow> iterable \<Rightarrow> (Match list \<times> js_error option) \<times> heap" where
  "spread eng h it =
     (case generator_next eng h (symbol_iterator it) of
        (Yield m, g, h') \<Rightarrow>
          (case state g of
             Suspended ms remainingTimeout \<Rightarrow>
               (let (xs, e) = drain (closure g) ms remainingTimeout in ((m # xs, e), h'))
           | _ \<Rightarrow> (([m], None), h'))
      | (Done, g, h') \<Rightarrow> (([], None), h')
      | (Throw e, g, h') \<Rightarrow> (([], Some e), h'))"

section \<open>The asynchronous operations\<close>

subsection \<open>The worker functions\<close>

text \<open>
  A worker runs in a thread of its own, with a store of its own (empty at the start): it
  receives the source text, the flags and the string, and builds its pattern with
  \<^verbatim>\<open>new RegExp(source, flags)\<close>.

  \<^verbatim>\<open>makeAsynchronous(f)\<close> and \<^verbatim>\<open>makeAsynchronousIterable(f)\<close>, from the package
  \<^verbatim>\<open>make-asynchronous\<close>, give the function that runs \<open>f\<close> in a new worker: seen from the
  caller, the call (for a generator, its first step) takes the start-up of the worker on
  top of what \<open>f\<close> needs.
\<close>

definition makeAsynchronous :: "engine \<Rightarrow> 'a timed \<Rightarrow> 'a timed" where
  "makeAsynchronous eng f = f\<lparr>cost := worker_startup eng + cost f\<rparr>"

definition makeAsynchronousIterable :: "engine \<Rightarrow> 'a timed list \<Rightarrow> 'a timed list" where
  "makeAsynchronousIterable eng ws =
     (case ws of [] \<Rightarrow> [] | w # rest \<Rightarrow> w\<lparr>cost := worker_startup eng + cost w\<rparr> # rest)"

definition new_RegExp :: "heap \<Rightarrow> string \<Rightarrow> string \<Rightarrow> ref \<times> heap" where
  "new_RegExp h src fl = (length h, h @ [\<lparr>source = src, flags = fl, lastIndex = 0\<rparr>])"

definition isMatchWorker :: "engine \<Rightarrow> string \<Rightarrow> string \<Rightarrow> string \<Rightarrow> bool timed" where
  "isMatchWorker eng src fl string =
     makeAsynchronous eng
       (let (regex, wh) = new_RegExp [] src fl;
            (f, wh') = RegExp_test eng wh regex string
        in f)"

definition firstMatchWorker :: "engine \<Rightarrow> string \<Rightarrow> string \<Rightarrow> string \<Rightarrow> Match option timed" where
  "firstMatchWorker eng src fl string =
     makeAsynchronous eng
     (let (regex, wh) = new_RegExp [] src fl;
          (f, wh') = RegExp_exec eng wh regex string
      in \<lparr>returns =
            (case returns f of
               Inl error \<Rightarrow> Inl error
             | Inr None \<Rightarrow> Inr None
             | Inr (Some result) \<Rightarrow>
                 Inr (Some \<lparr>match = (case raw_elems result of [] \<Rightarrow> None | x # _ \<Rightarrow> x),
                            index = raw_index result,
                            groups = drop 1 (raw_elems result),
                            namedGroups = (case raw_groups result of None \<Rightarrow> [] | Some g \<Rightarrow> g),
                            input = raw_input result\<rparr>)),
          cost = cost f\<rparr>)"

text \<open>
  \<^verbatim>\<open>matchesWorker\<close>: the steps of \<^verbatim>\<open>for (const match of string.matchAll(regex))\<close>, each
  match turned into the object it yields.
\<close>

definition matchesWorker :: "engine \<Rightarrow> string \<Rightarrow> string \<Rightarrow> string \<Rightarrow> Match option timed list" where
  "matchesWorker eng src fl string =
     makeAsynchronousIterable eng
     (let (regex, wh) = new_RegExp [] src fl;
          ms = re_matchAll eng (wh ! regex) string
      in map (\<lambda>a. \<lparr>returns =
                      (case returns (step a) of
                         Inl error \<Rightarrow> Inl error
                       | Inr None \<Rightarrow> Inr None
                       | Inr (Some match') \<Rightarrow>
                           Inr (Some \<lparr>match = (case raw_elems match' of [] \<Rightarrow> None | x # _ \<Rightarrow> x),
                                      index = raw_index match',
                                      groups = drop 1 (raw_elems match'),
                                      namedGroups =
                                        (case raw_groups match' of None \<Rightarrow> [] | Some g \<Rightarrow> g),
                                      input = raw_input match'\<rparr>)),
                    cost = cost (step a)\<rparr>) ms)"

subsection \<open>The cancellation token and its timer\<close>

text \<open>
  The \<^verbatim>\<open>AbortController\<close> of a call and the timer that \<^verbatim>\<open>setTimeout\<close> arms for it:
  \<open>timer\<close> is the delay of the pending timer, \<open>None\<close> when none is pending.
\<close>

record controller =
  aborted :: bool
  timer :: "jsnum option"

definition new_AbortController :: controller where
  "new_AbortController = \<lparr>aborted = False, timer = None\<rparr>"

text \<open>
  What \<^verbatim>\<open>handleAsyncTimeout\<close> returns: \<^verbatim>\<open>undefined\<close> (\<open>None\<close>), the no-op cleanup, or the
  cleanup that calls \<^verbatim>\<open>clearTimeout\<close>.
\<close>

datatype cleanup = Noop | ClearTimeout

definition handleAsyncTimeout :: "controller \<Rightarrow> jsnum option \<Rightarrow> cleanup option \<times> controller" where
  "handleAsyncTimeout c timeout' =
     (case timeout' of
        None \<Rightarrow> (None, c)
      | Some t \<Rightarrow>
          if Number_isNaN t then (None, c)
          else if js_le t (Fin 0) \<or> \<not> Number_isFinite t then
            (Some Noop, if js_le t (Fin 0) then c\<lparr>aborted := True\<rparr> else c)
          else (Some ClearTimeout, c\<lparr>timer := Some t\<rparr>))"

text \<open>\<^verbatim>\<open>cleanup?.()\<close>\<close>

definition run_cleanup :: "cleanup option \<Rightarrow> controller \<Rightarrow> controller" where
  "run_cleanup cl c =
     (case cl of
        None \<Rightarrow> c
      | Some Noop \<Rightarrow> c
      | Some ClearTimeout \<Rightarrow> c\<lparr>timer := None\<rparr>)"

definition abort_error :: js_error where
  "abort_error = \<lparr>name = ''AbortError'', message = ''This operation was aborted'', code = None\<rparr>"

definition timeout_error_async :: js_error where
  "timeout_error_async = \<lparr>name = ''TimeoutError'', message = ''Timed out'', code = None\<rparr>"

definition handleAsyncError :: "js_error \<Rightarrow> bool \<Rightarrow> 'a \<Rightarrow> js_error + 'a" where
  "handleAsyncError error throwOnTimeout' defaultValue =
     (if name error = ''AbortError'' then
        (if throwOnTimeout' then Inl timeout_error_async else Inr defaultValue)
      else Inl error)"

text \<open>
  \<^verbatim>\<open>worker.withSignal(signal)(...)\<close>, from the package \<^verbatim>\<open>make-asynchronous\<close>: the promise
  rejects with an \<^verbatim>\<open>AbortError\<close> when the signal is already aborted at the dispatch, or
  when the pending timer fires (and aborts the controller) before the worker is done;
  otherwise it settles as the worker's function returns or throws. The timer is armed
  before the dispatch, so the time it runs against is the cost of the call as
  \<^verbatim>\<open>makeAsynchronous\<close> gives it, start-up included. The timer is the one of \<^verbatim>\<open>setTimeout\<close>
  for a delay from 1 to \<open>2\<^sup>3\<^sup>1 - 1\<close>, which the host takes as it is given (it puts 1 ms in
  the place of any other delay); the two regimes are compared within this range.
\<close>

definition timer_fires :: "controller \<Rightarrow> real \<Rightarrow> bool" where
  "timer_fires c t = (case timer c of None \<Rightarrow> False | Some d \<Rightarrow> js_lt d (Fin t))"

definition worker_call :: "controller \<Rightarrow> 'a timed \<Rightarrow> (js_error + 'a) \<times> controller" where
  "worker_call c f =
     (if aborted c then (Inl abort_error, c)
      else if timer_fires c (cost f) then (Inl abort_error, c\<lparr>aborted := True, timer := None\<rparr>)
      else (returns f, c))"

text \<open>
  The same for the iterable of a worker generator, one \<^verbatim>\<open>next\<close> at a time: \<open>clock\<close> is the
  time the worker has run since the timer was armed.
\<close>

definition worker_next ::
  "controller \<Rightarrow> real \<Rightarrow> 'a option timed list \<Rightarrow>
     ('a iter_result \<times> 'a option timed list \<times> real) \<times> controller" where
  "worker_next c clock ws =
     (if aborted c then ((Throw abort_error, ws, clock), c)
      else
        (case ws of
           [] \<Rightarrow> ((Done, [], clock), c)
         | w # rest \<Rightarrow>
             if timer_fires c (clock + cost w)
             then ((Throw abort_error, rest, clock + cost w), c\<lparr>aborted := True, timer := None\<rparr>)
             else
               (case returns w of
                  Inl error \<Rightarrow> ((Throw error, rest, clock + cost w), c)
                | Inr None \<Rightarrow> ((Done, rest, clock + cost w), c)
                | Inr (Some v) \<Rightarrow> ((Yield v, rest, clock + cost w), c))))"

subsection \<open>\<^verbatim>\<open>isMatchAsync\<close> and \<^verbatim>\<open>firstMatchAsync\<close>\<close>

text \<open>
  \<^verbatim>\<open>withAsyncTimeout\<close>; the controller is returned with the result, so that the state of
  the timer after the call can be read.
\<close>

definition withAsyncTimeout ::
  "'a timed \<Rightarrow> jsnum option \<Rightarrow> bool \<Rightarrow> 'a \<Rightarrow> (js_error + 'a) \<times> controller" where
  "withAsyncTimeout workerFunction timeout' throwOnTimeout' defaultValue =
     (let c = new_AbortController;
          (cl, c1) = handleAsyncTimeout c timeout';
          (r, c2) = worker_call c1 workerFunction
      in case r of
           Inr res \<Rightarrow> (Inr res, run_cleanup cl c2)
         | Inl error \<Rightarrow> (handleAsyncError error throwOnTimeout' defaultValue, run_cleanup cl c2))"

definition isMatchAsync ::
  "engine \<Rightarrow> heap \<Rightarrow> ref \<Rightarrow> string \<Rightarrow> options \<Rightarrow> (js_error + bool) \<times> controller" where
  "isMatchAsync eng h regex string opts =
     withAsyncTimeout (isMatchWorker eng (source (h ! regex)) (flags (h ! regex)) string)
       (timeout opts) (throwOnTimeout opts) False"

definition firstMatchAsync ::
  "engine \<Rightarrow> heap \<Rightarrow> ref \<Rightarrow> string \<Rightarrow> options \<Rightarrow> (js_error + Match option) \<times> controller" where
  "firstMatchAsync eng h regex string opts =
     withAsyncTimeout (firstMatchWorker eng (source (h ! regex)) (flags (h ! regex)) string)
       (timeout opts) (throwOnTimeout opts) None"

subsection \<open>The asynchronous enumeration \<^verbatim>\<open>matchesAsync\<close>\<close>

text \<open>
  \<^verbatim>\<open>matchesAsync\<close> is an \<^verbatim>\<open>async function*\<close>: the call makes the generator object and
  runs nothing of the body. The generator is suspended at its start, suspended at the
  \<^verbatim>\<open>yield\<close> (holding the worker's iterator, the clock, \<^verbatim>\<open>cleanup\<close> and the controller), or
  completed (holding the controller, if one was made).
\<close>

datatype agen_state =
  AStart
| ASuspended "Match option timed list" real "cleanup option" controller
| ACompleted "controller option"

record async_generator =
  ag_regex :: ref
  ag_string :: string
  ag_timeout :: "jsnum option"
  ag_throwOnTimeout :: bool
  ag_state :: agen_state

definition matchesAsync :: "ref \<Rightarrow> string \<Rightarrow> options \<Rightarrow> async_generator" where
  "matchesAsync regex string opts =
     \<lparr>ag_regex = regex, ag_string = string, ag_timeout = timeout opts,
      ag_throwOnTimeout = throwOnTimeout opts, ag_state = AStart\<rparr>"

text \<open>
  One turn of the \<^verbatim>\<open>for await\<close> loop with its \<^verbatim>\<open>try\<close>, \<^verbatim>\<open>catch\<close> and \<^verbatim>\<open>finally\<close>:
  \<^verbatim>\<open>return handleAsyncError(error, throwOnTimeout, undefined)\<close> ends the generator, by a
  throw or by \<^verbatim>\<open>done\<close>; \<^verbatim>\<open>cleanup?.()\<close> runs on every way out.
\<close>

definition for_await_turn ::
  "async_generator \<Rightarrow> Match option timed list \<Rightarrow> real \<Rightarrow> cleanup option \<Rightarrow> controller \<Rightarrow>
     Match iter_result \<times> agen_state" where
  "for_await_turn g ws clock cl c =
     (let ((r, ws', clock'), c') = worker_next c clock ws
      in case r of
           Yield m \<Rightarrow> (Yield m, ASuspended ws' clock' cl c')
         | Done \<Rightarrow> (Done, ACompleted (Some (run_cleanup cl c')))
         | Throw error \<Rightarrow>
             (case handleAsyncError error (ag_throwOnTimeout g) () of
                Inl e \<Rightarrow> (Throw e, ACompleted (Some (run_cleanup cl c')))
              | Inr u \<Rightarrow> (Done, ACompleted (Some (run_cleanup cl c')))))"

definition async_next ::
  "engine \<Rightarrow> heap \<Rightarrow> async_generator \<Rightarrow> Match iter_result \<times> async_generator" where
  "async_next eng h g =
     (case ag_state g of
        AStart \<Rightarrow>
          if \<not> global (h ! ag_regex g)
          then (Throw global_flag_error_async, g\<lparr>ag_state := ACompleted None\<rparr>)
          else
            (let c = new_AbortController;
                 (cl, c1) = handleAsyncTimeout c (ag_timeout g);
                 ws = matchesWorker eng (source (h ! ag_regex g)) (flags (h ! ag_regex g))
                        (ag_string g);
                 (r, st) = for_await_turn g ws 0 cl c1
             in (r, g\<lparr>ag_state := st\<rparr>))
      | ASuspended ws clock cl c \<Rightarrow>
          (let (r, st) = for_await_turn g ws clock cl c in (r, g\<lparr>ag_state := st\<rparr>))
      | ACompleted c \<Rightarrow> (Done, g))"

text \<open>\<^verbatim>\<open>return()\<close> on the generator (the consumer stops early): the \<^verbatim>\<open>finally\<close> runs.\<close>

definition async_return :: "async_generator \<Rightarrow> async_generator" where
  "async_return g =
     (case ag_state g of
        AStart \<Rightarrow> g\<lparr>ag_state := ACompleted None\<rparr>
      | ASuspended ws clock cl c \<Rightarrow> g\<lparr>ag_state := ACompleted (Some (run_cleanup cl c))\<rparr>
      | ACompleted c \<Rightarrow> g)"

function adrain ::
  "async_generator \<Rightarrow> Match option timed list \<Rightarrow> real \<Rightarrow> cleanup option \<Rightarrow> controller \<Rightarrow>
     Match list \<times> js_error option" where
  "adrain g ws clock cl c =
     (case for_await_turn g ws clock cl c of
        (Yield m, ASuspended ws' clock' cl' c') \<Rightarrow>
          (let (xs, e) = adrain g ws' clock' cl' c' in (m # xs, e))
      | (Yield m, _) \<Rightarrow> ([m], None)
      | (Done, _) \<Rightarrow> ([], None)
      | (Throw e, _) \<Rightarrow> ([], Some e))"
  by pat_completeness auto
termination
proof (relation "measure (\<lambda>(g, ws, clock, cl, c). length ws)")
  show "wf (measure (\<lambda>(g, ws, clock, cl, c). length ws))"
    by simp
next
  fix g :: async_generator and ws clock cl c x y m ws' clock' cl' c'
  assume "(x, y) = for_await_turn g ws clock cl c" "x = Yield m"
    and "y = ASuspended ws' clock' cl' c'"
  then have "for_await_turn g ws clock cl c = (Yield m, ASuspended ws' clock' cl' c')"
    by simp
  then have "length ws' < length ws"
    by (auto simp: for_await_turn_def worker_next_def Let_def
        split: if_splits list.splits sum.splits option.splits prod.splits iter_result.splits)
  then show "((g, ws', clock', cl', c'), (g, ws, clock, cl, c))
      \<in> measure (\<lambda>(g, ws, clock, cl, c). length ws)"
    by simp
qed

text \<open>
  \<^verbatim>\<open>for await (const match of matchesAsync(...))\<close>, to the end, by a consumer that takes
  no time of its own between the elements (the timer of the call runs on while the
  consumer works).
\<close>

definition for_await :: "engine \<Rightarrow> heap \<Rightarrow> async_generator \<Rightarrow> Match list \<times> js_error option" where
  "for_await eng h g =
     (case async_next eng h g of
        (Yield m, g') \<Rightarrow>
          (case ag_state g' of
             ASuspended ws clock cl c \<Rightarrow> (let (xs, e) = adrain g' ws clock cl c in (m # xs, e))
           | _ \<Rightarrow> ([m], None))
      | (Done, g') \<Rightarrow> ([], None)
      | (Throw e, g') \<Rightarrow> ([], Some e))"

section \<open>Notions used in the statements\<close>

subsection \<open>The engine on a pattern without named groups\<close>

text \<open>
  What the engine does for a pattern that declares no named group: every raw result it
  gives for the pattern, from \<^verbatim>\<open>exec\<close> or from the iterator of \<^verbatim>\<open>matchAll\<close>, has
  \<^verbatim>\<open>groups\<close> \<^verbatim>\<open>undefined\<close>.
\<close>

definition yields_no_named_groups :: "exec_array option timed \<Rightarrow> bool" where
  "yields_no_named_groups f =
     (case returns f of Inr (Some raw) \<Rightarrow> raw_groups raw = None | _ \<Rightarrow> True)"

definition no_named_groups :: "engine \<Rightarrow> regexp \<Rightarrow> string \<Rightarrow> bool" where
  "no_named_groups eng r s =
     (yields_no_named_groups (fst (re_exec eng r s))
      \<and> list_all (\<lambda>a. yields_no_named_groups (step a)) (re_matchAll eng r s))"

subsection \<open>Calls on the caller's store\<close>

text \<open>
  The public operations as calls on the caller's store, and the store after a call. The
  synchronous operations get the reference of the pattern (an enumeration is consumed to
  its end); the asynchronous ones read \<^verbatim>\<open>source\<close>, \<^verbatim>\<open>flags\<close> and \<^verbatim>\<open>global\<close> of the pattern and
  hand strings to a worker, which has a store of its own.
\<close>

datatype call =
  IsMatch ref string options
| FirstMatch ref string options
| Matches ref string matches_options
| IsMatchAsync ref string options
| FirstMatchAsync ref string options
| MatchesAsync ref string options

fun perform :: "engine \<Rightarrow> heap \<Rightarrow> call \<Rightarrow> heap" where
  "perform eng h (IsMatch regex string opts) = snd (isMatch eng h regex string opts)"
| "perform eng h (FirstMatch regex string opts) = snd (firstMatch eng h regex string opts)"
| "perform eng h (Matches regex string opts) =
     (case matches h regex string opts of Inl e \<Rightarrow> h | Inr it \<Rightarrow> snd (spread eng h it))"
| "perform eng h (IsMatchAsync regex string opts) = h"
| "perform eng h (FirstMatchAsync regex string opts) = h"
| "perform eng h (MatchesAsync regex string opts) = h"

subsection \<open>Completing well inside the deadline\<close>



definition total_elapsed :: "attempt list \<Rightarrow> int" where
  "total_elapsed ms = (\<Sum>a\<leftarrow>ms. \<lceil>elapsed a\<rceil>)"



section \<open>Closed instances\<close>

text \<open>
  An engine that gives the same answers whatever the pattern and the string (on a host
  whose workers start at once), and the data
  of the closed instances at which the theorems below are applied.
\<close>

definition const_engine :: "bool timed \<Rightarrow> exec_array option timed \<Rightarrow> attempt list \<Rightarrow> nat \<Rightarrow> engine" where
  "const_engine t e ms li =
     \<lparr>re_test = (\<lambda>r s. (t, li)), re_exec = (\<lambda>r s. (e, li)), re_matchAll = (\<lambda>r s. ms),
      worker_startup = 0\<rparr>"

definition slow_test :: "bool timed" where
  "slow_test = \<lparr>returns = Inr True, cost = 50\<rparr>"

definition slow_exec :: "exec_array option timed" where
  "slow_exec = \<lparr>returns = Inr None, cost = 50\<rparr>"







definition digits_g :: regexp where
  "digits_g = \<lparr>source = ''[0-9]+'', flags = ''g'', lastIndex = 4\<rparr>"

definition one_digit :: exec_array where
  "one_digit = \<lparr>raw_elems = [Some ''1''], raw_index = 1, raw_groups = None, raw_input = ''a1b22c333''\<rparr>"

definition quick_step :: attempt where
  "quick_step = \<lparr>step = \<lparr>returns = Inr (Some one_digit), cost = 2\<rparr>, elapsed = 2.5\<rparr>"

definition budget :: "jsnum \<Rightarrow> jsnum \<Rightarrow> iterable" where
  "budget t mt =
     \<lparr>it_regex = 0, it_string = ''a1b22c333'', it_timeout = t, it_matchTimeout = mt,
      it_throwOnTimeout = False\<rparr>"

definition match_after :: "real \<Rightarrow> attempt" where
  "match_after ms = \<lparr>step = \<lparr>returns = Inr (Some one_digit), cost = ms\<rparr>, elapsed = ms\<rparr>"

definition one_step_engine :: "attempt \<Rightarrow> engine" where
  "one_step_engine a = const_engine slow_test slow_exec [a] 0"


definition test_plain :: regexp where
  "test_plain = \<lparr>source = ''test'', flags = '''', lastIndex = 0\<rparr>"

definition digit_raw :: "string \<Rightarrow> nat \<Rightarrow> exec_array" where
  "digit_raw s i = \<lparr>raw_elems = [Some s], raw_index = i, raw_groups = None, raw_input = ''a1b22c333''\<rparr>"

definition digit_steps :: "attempt list" where
  "digit_steps =
     [\<lparr>step = \<lparr>returns = Inr (Some (digit_raw ''1'' 1)), cost = 2\<rparr>, elapsed = 3\<rparr>,
      \<lparr>step = \<lparr>returns = Inr (Some (digit_raw ''22'' 3)), cost = 2\<rparr>, elapsed = 3\<rparr>,
      \<lparr>step = \<lparr>returns = Inr (Some (digit_raw ''333'' 6)), cost = 2\<rparr>, elapsed = 3\<rparr>,
      \<lparr>step = \<lparr>returns = Inr None, cost = 1\<rparr>, elapsed = 1\<rparr>]"

definition digits_engine :: engine where
  "digits_engine =
     const_engine \<lparr>returns = Inr True, cost = 2\<rparr>
       \<lparr>returns = Inr (Some (digit_raw ''1'' 1)), cost = 2\<rparr> digit_steps 2"

definition digit_match :: "string \<Rightarrow> nat \<Rightarrow> Match" where
  "digit_match s i = \<lparr>match = Some s, index = i, groups = [], namedGroups = [], input = ''a1b22c333''\<rparr>"

definition date_source :: string where
  "date_source = ''(?<year>'' @ [CHR 0x5C] @ ''d{4})-(?<month>'' @ [CHR 0x5C] @ ''d{2})''"

definition date_regexp :: regexp where
  "date_regexp = \<lparr>source = date_source, flags = '''', lastIndex = 0\<rparr>"

definition date_raw :: exec_array where
  "date_raw =
     \<lparr>raw_elems = [Some ''2024-01'', Some ''2024'', Some ''01''], raw_index = 0,
      raw_groups = Some [(''year'', Some ''2024''), (''month'', Some ''01'')],
      raw_input = ''2024-01-15''\<rparr>"

definition date_engine :: engine where
  "date_engine =
     const_engine \<lparr>returns = Inr True, cost = 1\<rparr> \<lparr>returns = Inr (Some date_raw), cost = 1\<rparr> [] 0"

definition some_calls :: "call list" where
  "some_calls =
     [IsMatch 0 ''a1b22c333'' \<lparr>timeout = Some (Fin 1000), throwOnTimeout = False\<rparr>,
      Matches 0 ''a1b22c333'' \<lparr>timeout = None, throwOnTimeout = False, matchTimeout = None\<rparr>,
      FirstMatch 0 ''a1b22c333'' \<lparr>timeout = None, throwOnTimeout = True\<rparr>,
      IsMatch 0 ''a1b22c333'' \<lparr>timeout = None, throwOnTimeout = False\<rparr>]"






declare drain.simps [simp del] adrain.simps [simp del]

section \<open>Timeout normalization in the two regimes\<close>

lemma trunc_abs_nat: "\<exists>n::nat. 1 \<le> n \<and> max 1 (trunc \<bar>x\<bar>) = real n"
proof -
  have "max 1 (trunc \<bar>x\<bar>) = real (nat (max 1 \<lfloor>\<bar>x\<bar>\<rfloor>))"
    by (simp add: trunc_def max_def)
  moreover have "1 \<le> nat (max 1 \<lfloor>\<bar>x\<bar>\<rfloor>)"
    by simp
  ultimately show ?thesis
    by blast
qed

lemma normalizeTimeout_cases:
  "normalizeTimeout None = None"
  "normalizeTimeout (Some NaN) = None"
  "normalizeTimeout (Some PosInf) = None"
  "normalizeTimeout (Some NegInf) = None"
  "normalizeTimeout (Some (Fin x)) = Some (Fin (max 1 (trunc \<bar>x\<bar>)))"
  by (simp_all add: normalizeTimeout_def)

lemma handleAsyncTimeout_cases:
  "handleAsyncTimeout c None = (None, c)"
  "handleAsyncTimeout c (Some NaN) = (None, c)"
  "handleAsyncTimeout c (Some PosInf) = (Some Noop, c)"
  "handleAsyncTimeout c (Some NegInf) = (Some Noop, c\<lparr>aborted := True\<rparr>)"
  "handleAsyncTimeout c (Some (Fin x)) =
     (if x \<le> 0 then (Some Noop, c\<lparr>aborted := True\<rparr>)
      else (Some ClearTimeout, c\<lparr>timer := Some (Fin x)\<rparr>))"
  by (simp_all add: handleAsyncTimeout_def)

lemma withAsyncTimeout_no_timer:
  "t = None \<or> t = Some NaN \<or> t = Some PosInf \<Longrightarrow>
   withAsyncTimeout f t thr d =
     (case returns f of Inr v \<Rightarrow> Inr v | Inl e \<Rightarrow> handleAsyncError e thr d,
      \<lparr>aborted = False, timer = None\<rparr>)"
  by (auto simp: withAsyncTimeout_def handleAsyncTimeout_cases worker_call_def
      new_AbortController_def timer_fires_def run_cleanup_def split: sum.splits)

lemma withAsyncTimeout_NegInf:
  "withAsyncTimeout f (Some NegInf) thr d =
     (if thr then Inl timeout_error_async else Inr d, \<lparr>aborted = True, timer = None\<rparr>)"
  by (simp add: withAsyncTimeout_def handleAsyncTimeout_cases worker_call_def
      new_AbortController_def run_cleanup_def handleAsyncError_def abort_error_def)

lemma withAsyncTimeout_Fin:
  "withAsyncTimeout f (Some (Fin x)) thr d =
     (if x \<le> 0 \<or> x < cost f
      then (if thr then Inl timeout_error_async else Inr d, \<lparr>aborted = True, timer = None\<rparr>)
      else (case returns f of Inr v \<Rightarrow> Inr v | Inl e \<Rightarrow> handleAsyncError e thr d,
            \<lparr>aborted = False, timer = None\<rparr>))"
  by (cases "x \<le> 0"; cases "x < cost f"; cases "returns f")
     (simp_all add: withAsyncTimeout_def handleAsyncTimeout_cases worker_call_def
      new_AbortController_def timer_fires_def run_cleanup_def handleAsyncError_def abort_error_def)

text \<open>
  C2, as stated, at the timeout \<^verbatim>\<open>-Infinity\<close>. It is a number other than \<^verbatim>\<open>NaN\<close> and
  \<^verbatim>\<open>+Infinity\<close>, yet \<^verbatim>\<open>normalizeTimeout\<close> does not give the bounded deadline
  \<^verbatim>\<open>max(1, trunc(abs(x)))\<close> (it gives \<^verbatim>\<open>undefined\<close>, no deadline); and it is not finite, yet
  \<^verbatim>\<open>handleAsyncTimeout\<close> cancels the token at once.
\<close>

theorem C2_counterexample_negative_infinity:
  "NegInf \<noteq> NaN \<and> NegInf \<noteq> PosInf
   \<and> normalizeTimeout (Some NegInf) \<noteq> Some (Math_max (Fin 1) (Math_trunc (Math_abs NegInf)))
   \<and> normalizeTimeout (Some NegInf) = None
   \<and> \<not> Number_isFinite NegInf
   \<and> aborted (snd (handleAsyncTimeout new_AbortController (Some NegInf)))"
  by (simp add: normalizeTimeout_def handleAsyncTimeout_def)

text \<open>
  C2, amended. Synchronous regime: \<^verbatim>\<open>normalizeTimeout\<close> gives no deadline for an absent,
  \<^verbatim>\<open>NaN\<close> or infinite timeout (of either sign), and for every finite \<open>x\<close> the deadline
  \<^verbatim>\<open>max(1, trunc(abs(x)))\<close>, a whole number of at least 1 (so zero and negative values are
  clamped, not treated as "always time out"). Asynchronous regime: a timeout \<open>\<le> 0\<close>
  (\<^verbatim>\<open>-Infinity\<close> included) aborts the controller before the dispatch, arms no timer, and
  the call reports the timeout outcome whatever the worker would return; an absent,
  \<^verbatim>\<open>NaN\<close> or \<^verbatim>\<open>+Infinity\<close> timeout arms no timer and never aborts, the call settling as
  the worker does; a positive finite timeout arms a timer with that delay, and after the
  call no timer is pending, whether the worker settled or the timer fired.
\<close>

theorem C2_timeout_policies:
  "normalizeTimeout None = None
   \<and> normalizeTimeout (Some NaN) = None
   \<and> normalizeTimeout (Some PosInf) = None
   \<and> normalizeTimeout (Some NegInf) = None
   \<and> normalizeTimeout (Some (Fin x)) = Some (Fin (max 1 (trunc \<bar>x\<bar>)))
   \<and> (\<exists>n::nat. 1 \<le> n \<and> max 1 (trunc \<bar>x\<bar>) = real n)
   \<and> handleAsyncTimeout new_AbortController (Some (Fin x)) =
       (if x \<le> 0 then (Some Noop, \<lparr>aborted = True, timer = None\<rparr>)
        else (Some ClearTimeout, \<lparr>aborted = False, timer = Some (Fin x)\<rparr>))
   \<and> handleAsyncTimeout new_AbortController (Some NegInf) =
       (Some Noop, \<lparr>aborted = True, timer = None\<rparr>)
   \<and> handleAsyncTimeout new_AbortController (Some PosInf) =
       (Some Noop, \<lparr>aborted = False, timer = None\<rparr>)
   \<and> handleAsyncTimeout new_AbortController (Some NaN) =
       (None, \<lparr>aborted = False, timer = None\<rparr>)
   \<and> handleAsyncTimeout new_AbortController None = (None, \<lparr>aborted = False, timer = None\<rparr>)
   \<and> withAsyncTimeout f (Some (Fin x)) thr d =
       (if x \<le> 0 \<or> x < cost f
        then (if thr then Inl timeout_error_async else Inr d, \<lparr>aborted = True, timer = None\<rparr>)
        else (case returns f of Inr v \<Rightarrow> Inr v | Inl e \<Rightarrow> handleAsyncError e thr d,
              \<lparr>aborted = False, timer = None\<rparr>))
   \<and> withAsyncTimeout f (Some NegInf) thr d =
       (if thr then Inl timeout_error_async else Inr d, \<lparr>aborted = True, timer = None\<rparr>)
   \<and> withAsyncTimeout f (Some PosInf) thr d =
       (case returns f of Inr v \<Rightarrow> Inr v | Inl e \<Rightarrow> handleAsyncError e thr d,
        \<lparr>aborted = False, timer = None\<rparr>)
   \<and> withAsyncTimeout f (Some NaN) thr d =
       (case returns f of Inr v \<Rightarrow> Inr v | Inl e \<Rightarrow> handleAsyncError e thr d,
        \<lparr>aborted = False, timer = None\<rparr>)
   \<and> withAsyncTimeout f None thr d =
       (case returns f of Inr v \<Rightarrow> Inr v | Inl e \<Rightarrow> handleAsyncError e thr d,
        \<lparr>aborted = False, timer = None\<rparr>)"
  using trunc_abs_nat [of x] withAsyncTimeout_Fin [of f x thr d]
    withAsyncTimeout_NegInf [of f thr d]
    withAsyncTimeout_no_timer [of "Some PosInf" f thr d]
    withAsyncTimeout_no_timer [of "Some NaN" f thr d]
    withAsyncTimeout_no_timer [of None f thr d]
  by (simp add: normalizeTimeout_cases handleAsyncTimeout_cases new_AbortController_def)

section \<open>Timeouts and errors at the call boundary\<close>


lemma firstMatch_result:
  "fst (firstMatch eng h regex string opts) =
     (case functionTimeout (normalizeTimeout (timeout opts))
             (fst (re_exec eng ((h ! regex)\<lparr>lastIndex := 0\<rparr>) string)) of
        Inr res \<Rightarrow> Inr (map_option resultToMatch res)
      | Inl error \<Rightarrow> if isTimeoutError error \<and> \<not> throwOnTimeout opts then Inr None else Inl error)"
  by (simp add: firstMatch_def structuredClone_def RegExp_exec_def
      split: prod.splits sum.splits option.splits)



lemma isTimeoutError_simps [simp]:
  "isTimeoutError script_timeout_error" "isTimeoutError timeoutError"
  "\<not> isTimeoutError global_flag_error" "\<not> isTimeoutError global_flag_error_async"
  "\<not> isTimeoutError out_of_range_error"
  by (simp_all add: isTimeoutError_def script_timeout_error_def timeoutError_def
      global_flag_error_def global_flag_error_async_def out_of_range_error_def)

lemma resume_exhausted:
  "budget_exhausted it r \<Longrightarrow>
   resume it ms r = (if it_throwOnTimeout it then Throw timeoutError else Done, Completed)"
  by (simp add: resume_def loop_turn_def catch_clause_def)







lemma structuredClone_simps:
  "fst (structuredClone h r) = length h"
  "snd (structuredClone h r) = h @ [(h ! r)\<lparr>lastIndex := 0\<rparr>]"
  "snd (structuredClone h r) ! length h = (h ! r)\<lparr>lastIndex := 0\<rparr>"
  by (simp_all add: structuredClone_def)

lemma generator_next_Start:
  "generator_next eng h \<lparr>closure = it, state = Start\<rparr> =
     (fst (resume it (re_matchAll eng ((h ! it_regex it)\<lparr>lastIndex := 0\<rparr>) (it_string it)) (it_timeout it)),
      \<lparr>closure = it, state = snd (resume it (re_matchAll eng ((h ! it_regex it)\<lparr>lastIndex := 0\<rparr>) (it_string it)) (it_timeout it))\<rparr>,
      h @ [(h ! it_regex it)\<lparr>lastIndex := 0\<rparr>])"
  by (simp add: generator_next_def structuredClone_def split: prod.splits)


lemma spread_drain:
  "spread eng h it =
     (drain it (re_matchAll eng ((h ! it_regex it)\<lparr>lastIndex := 0\<rparr>) (it_string it)) (it_timeout it),
      h @ [(h ! it_regex it)\<lparr>lastIndex := 0\<rparr>])"
proof -
  let ?ms = "re_matchAll eng ((h ! it_regex it)\<lparr>lastIndex := 0\<rparr>) (it_string it)"
  obtain r st where rs: "resume it ?ms (it_timeout it) = (r, st)"
    by (cases "resume it ?ms (it_timeout it)")
  show ?thesis
    unfolding spread_def symbol_iterator_def generator_next_Start
    by (subst drain.simps) (simp add: rs split: iter_result.splits gen_state.splits prod.splits)
qed

lemma generator_next_Completed:
  "generator_next eng h \<lparr>closure = it, state = Completed\<rparr> =
     (Done, \<lparr>closure = it, state = Completed\<rparr>, h)"
  by (simp add: generator_next_def)







section \<open>The budget of the enumeration\<close>

lemma normalizedTimeout_unbounded:
  "it_timeout it = PosInf \<Longrightarrow> it_matchTimeout it = PosInf \<Longrightarrow> normalizedTimeout it r = None"
  by (simp add: normalizedTimeout_def)

lemma normalizedTimeout_bounded:
  "it_timeout it \<noteq> PosInf \<or> it_matchTimeout it \<noteq> PosInf \<Longrightarrow>
   normalizedTimeout it r = normalizeTimeout (Some (Math_min r (it_matchTimeout it)))"
  by (auto simp: normalizedTimeout_def)

lemma normalizedTimeout_floor:
  assumes "it_timeout it \<noteq> PosInf \<or> it_matchTimeout it \<noteq> PosInf"
    and "Math_min r (it_matchTimeout it) = Fin y" and "0 \<le> y"
  shows "normalizedTimeout it r = Some (Fin (max 1 (real_of_int \<lfloor>y\<rfloor>)))"
  using assms by (simp add: normalizedTimeout_bounded normalizeTimeout_cases trunc_def)

lemma normalizedTimeout_whole:
  assumes "it_timeout it \<noteq> PosInf \<or> it_matchTimeout it \<noteq> PosInf"
    and "Math_min r (it_matchTimeout it) = Fin (real n)" and "1 \<le> n"
  shows "normalizedTimeout it r = Some (Fin (real n))"
  using assms by (simp add: normalizedTimeout_bounded normalizeTimeout_cases trunc_def max_def)

lemma resume_attempt:
  "\<not> budget_exhausted it r \<Longrightarrow>
   resume it (a # rest) r =
     (case functionTimeout (normalizedTimeout it r) (step a) of
        Inl e \<Rightarrow> (if isTimeoutError e \<and> \<not> it_throwOnTimeout it then Done else Throw e, Completed)
      | Inr None \<Rightarrow> (Done, Completed)
      | Inr (Some v) \<Rightarrow>
          (Yield (resultToMatch v), Suspended rest (js_minus r (Math_ceil (Fin (elapsed a))))))"
  by (simp add: resume_def loop_turn_def catch_clause_def  split: sum.splits option.splits)

text \<open>
  Where the smaller of the remaining total and the per-match limit is a number \<open>y \<ge> 0\<close>,
  the loop keeps its budget. At the head of every turn, if the total timeout is not
  \<^verbatim>\<open>Infinity\<close> and the remaining total is \<open>\<le> 0\<close>, the enumeration ends (silently, or with
  the timeout error when \<^verbatim>\<open>throwOnTimeout\<close> is set) whatever steps the iterator has left:
  no attempt is made and no deadline is computed. Otherwise the attempt runs under
  \<^verbatim>\<open>normalizedTimeout\<close>: no deadline when both timeouts are \<^verbatim>\<open>Infinity\<close>; else the
  normalization of the smaller of the two, which for \<open>y \<ge> 0\<close> is \<open>y\<close> truncated to whole
  milliseconds and raised to at least 1, hence the smaller of the two itself when that is
  a whole number \<open>\<ge> 1\<close>. After an attempt that returned, the remaining total is the old
  one minus the elapsed time rounded up to whole milliseconds.
\<close>

lemma budget_tracker:
  "(it_timeout it \<noteq> PosInf \<and> js_le r0 (Fin 0) \<longrightarrow>
      resume it ms r0 = (if it_throwOnTimeout it then Throw timeoutError else Done, Completed))
   \<and> (\<not> (it_timeout it \<noteq> PosInf \<and> js_le r (Fin 0)) \<longrightarrow>
      resume it (a # rest) r =
        (case functionTimeout (normalizedTimeout it r) (step a) of
           Inl e \<Rightarrow>
             (if isTimeoutError e \<and> \<not> it_throwOnTimeout it then Done else Throw e, Completed)
         | Inr None \<Rightarrow> (Done, Completed)
         | Inr (Some v) \<Rightarrow>
             (Yield (resultToMatch v),
              Suspended rest (js_minus r (Math_ceil (Fin (elapsed a)))))))
   \<and> (it_timeout it = PosInf \<and> it_matchTimeout it = PosInf \<longrightarrow> normalizedTimeout it r = None)
   \<and> ((it_timeout it \<noteq> PosInf \<or> it_matchTimeout it \<noteq> PosInf)
        \<and> Math_min r (it_matchTimeout it) = Fin y \<and> 0 \<le> y \<longrightarrow>
      normalizedTimeout it r = Some (Fin (max 1 (real_of_int \<lfloor>y\<rfloor>))))
   \<and> ((it_timeout it \<noteq> PosInf \<or> it_matchTimeout it \<noteq> PosInf)
        \<and> Math_min r (it_matchTimeout it) = Fin (real n) \<and> 1 \<le> n \<longrightarrow>
      normalizedTimeout it r = Some (Fin (real n)))
   \<and> js_minus (Fin x) (Math_ceil (Fin el)) = Fin (x - real_of_int \<lceil>el\<rceil>)"
  using resume_exhausted [of it r0 ms] resume_attempt [of it r a rest]
    normalizedTimeout_floor [of it r y] normalizedTimeout_whole [of it r n]
  by (simp add: budget_exhausted_def normalizedTimeout_unbounded)

text \<open>
  At \<^verbatim>\<open>{timeout: 100, matchTimeout: 30}\<close>, with the remaining total at 0 and at 100 (an
  attempt that takes 2.5 ms leaves 97), and at no timeouts at all. At
  \<^verbatim>\<open>{timeout: 100, matchTimeout: 0}\<close> the per-match limit is normalized to 1 ms, and the
  deadline is 1.
\<close>

lemma budget_tracker_at_100_30:
  "resume \<lparr>it_regex = 0, it_string = ''a1b22c333'', it_timeout = Fin 100,
        it_matchTimeout = Fin 30, it_throwOnTimeout = False\<rparr> [quick_step] (Fin 0) = (Done, Completed)
   \<and> resume \<lparr>it_regex = 0, it_string = ''a1b22c333'', it_timeout = Fin 100,
        it_matchTimeout = Fin 30, it_throwOnTimeout = False\<rparr> [quick_step] (Fin 100) =
       (Yield (resultToMatch one_digit), Suspended [] (Fin 97))
   \<and> normalizedTimeout \<lparr>it_regex = 0, it_string = ''a1b22c333'', it_timeout = Fin 100,
        it_matchTimeout = Fin 30, it_throwOnTimeout = False\<rparr> (Fin 100) = Some (Fin 30)
   \<and> normalizedTimeout \<lparr>it_regex = 0, it_string = ''a1b22c333'', it_timeout = PosInf,
        it_matchTimeout = PosInf, it_throwOnTimeout = False\<rparr> (Fin 100) = None"
  using budget_tracker
    [where it = "\<lparr>it_regex = 0, it_string = ''a1b22c333'', it_timeout = Fin 100,
        it_matchTimeout = Fin 30, it_throwOnTimeout = False\<rparr>"
      and ?r0.0 = "Fin 0" and r = "Fin 100" and ms = "[quick_step]" and a = quick_step
      and rest = "[]" and y = 30 and n = 30 and x = 100 and el = "2.5"]
    budget_tracker
    [where it = "\<lparr>it_regex = 0, it_string = ''a1b22c333'', it_timeout = PosInf,
        it_matchTimeout = PosInf, it_throwOnTimeout = False\<rparr>" and r = "Fin 100"]
  by (simp add: quick_step_def functionTimeout_def validateUint32_def)

lemma normalizedTimeout_zero_matchTimeout:
  "normalizedTimeout (budget (Fin 100) (Fin 0)) (Fin 100) = Some (Fin 1)"
  by (simp add: budget_def normalizedTimeout_def normalizeTimeout_def trunc_def)

text \<open>
  The deadline is \<^verbatim>\<open>normalizeTimeout(Math.min(remainingTimeout, matchTimeout))\<close>: the two
  limits are compared as raw numbers and the result is normalized, where
  \<^verbatim>\<open>normalizeTimeout\<close> reads \<^verbatim>\<open>NaN\<close> as "no limit" and a negative number as its absolute
  value. A \<^verbatim>\<open>NaN\<close> on either side makes the minimum \<^verbatim>\<open>NaN\<close>, and the other limit is lost;
  a negative per-match limit below the remaining total is the minimum, and its absolute
  value may be above the remaining total.
\<close>

lemma normalizedTimeout_raw_minimum:
  "normalizedTimeout (budget (Fin 100) NaN) (Fin 100) = None"
  "normalizedTimeout (budget NaN (Fin 50)) NaN = None"
  "normalizedTimeout (budget (Fin 3) (Fin (- 5))) (Fin 3) = Some (Fin 5)"
  by (simp_all add: budget_def normalizedTimeout_def normalizeTimeout_def trunc_def)

text \<open>
  C3 fails on the code at \<^verbatim>\<open>[...matches(/[0-9]+/g, 'a1b22c333', {timeout: 100,
  matchTimeout: NaN})]\<close>, on an engine whose first step finds a match after 5000 ms: the
  total is bounded and 100 ms of it remain, the per-match limit is "no limit", so the
  deadline of the attempt is to be 100 ms; the attempt runs with no deadline and its
  match is yielded (with \<^verbatim>\<open>matchTimeout\<close> left out, the same attempt times out and nothing
  is yielded). The same at \<^verbatim>\<open>{timeout: NaN, matchTimeout: 50}\<close>, where the per-match limit
  of 50 ms is lost (with \<^verbatim>\<open>timeout\<close> left out, the attempt times out). At
  \<^verbatim>\<open>{timeout: 3, matchTimeout: -5}\<close> a step of 4 ms is let through, under a deadline of
  5 ms with 3 ms of the total remaining (at \<^verbatim>\<open>matchTimeout: 5\<close> it times out).
\<close>

theorem C3_attempt_outruns_budget:
  "matches [digits_g] 0 ''a1b22c333''
       \<lparr>timeout = Some (Fin 100), throwOnTimeout = False, matchTimeout = Some NaN\<rparr> =
     Inr (budget (Fin 100) NaN)
   \<and> fst (spread (one_step_engine (match_after 5000)) [digits_g] (budget (Fin 100) NaN)) =
       ([resultToMatch one_digit], None)
   \<and> fst (spread (one_step_engine (match_after 5000)) [digits_g] (budget (Fin 100) PosInf)) =
       ([], None)
   \<and> fst (spread (one_step_engine (match_after 5000)) [digits_g] (budget NaN (Fin 50))) =
       ([resultToMatch one_digit], None)
   \<and> fst (spread (one_step_engine (match_after 5000)) [digits_g] (budget PosInf (Fin 50))) =
       ([], None)
   \<and> fst (spread (one_step_engine (match_after 4)) [digits_g] (budget (Fin 3) (Fin (- 5)))) =
       ([resultToMatch one_digit], None)
   \<and> fst (spread (one_step_engine (match_after 4)) [digits_g] (budget (Fin 3) (Fin 5))) =
       ([], None)"
  by code_simp

section \<open>The enumerations: configuration error, laziness, passes\<close>

lemma resume_Yield_shorter:
  "resume it ms r = (Yield m, Suspended ms' r') \<Longrightarrow> length ms' < length ms"
  by (auto simp: resume_def catch_clause_def loop_turn_def Let_def
      split: if_splits list.splits sum.splits option.splits)

lemma resume_Yield_Suspended:
  "resume it ms r = (Yield m, st) \<Longrightarrow> \<exists>ms' r'. st = Suspended ms' r'"
  by (auto simp: resume_def catch_clause_def loop_turn_def Let_def
      split: if_splits list.splits sum.splits option.splits)

lemma resume_not_Yield_Completed:
  "resume it ms r = (x, st) \<Longrightarrow> (\<forall>m. x \<noteq> Yield m) \<Longrightarrow> st = Completed"
  by (auto simp: resume_def catch_clause_def loop_turn_def Let_def
      split: if_splits list.splits sum.splits option.splits)

lemma length_drain: "length (fst (drain it ms r)) \<le> length ms"
proof (induction it ms r rule: drain.induct)
  case (1 it ms r)
  obtain x st where rs: "resume it ms r = (x, st)"
    by (cases "resume it ms r")
  show ?case
  proof (cases x)
    case (Yield m)
    then obtain ms' r' where st: "st = Suspended ms' r'"
      using rs resume_Yield_Suspended by blast
    have "length ms' < length ms"
      using rs Yield st resume_Yield_shorter by blast
    moreover have "length (fst (drain it ms' r')) \<le> length ms'"
      using "1.IH" rs Yield st by simp
    ultimately show ?thesis
      by (subst drain.simps) (simp add: rs Yield st case_prod_beta)
  next
    case Done
    then show ?thesis by (subst drain.simps) (simp add: rs)
  next
    case (Throw e)
    then show ?thesis by (subst drain.simps) (simp add: rs)
  qed
qed

lemma matches_global:
  "global (h ! regex) \<Longrightarrow>
   matches h regex string opts =
     Inr \<lparr>it_regex = regex, it_string = string,
          it_timeout = (case timeout opts of None \<Rightarrow> PosInf | Some t \<Rightarrow> t),
          it_matchTimeout = (case matchTimeout opts of None \<Rightarrow> PosInf | Some t \<Rightarrow> t),
          it_throwOnTimeout = throwOnTimeout opts\<rparr>"
  by (simp add: matches_def)

lemma matches_not_global:
  "\<not> global (h ! regex) \<Longrightarrow> matches h regex string opts = Inl global_flag_error"
  by (simp add: matches_def)

lemma async_next_not_global:
  "\<not> global (h ! regex) \<Longrightarrow>
   async_next eng h (matchesAsync regex string opts) =
     (Throw global_flag_error_async, (matchesAsync regex string opts)\<lparr>ag_state := ACompleted None\<rparr>)"
  by (simp add: async_next_def matchesAsync_def)

lemma for_await_not_global:
  "\<not> global (h ! regex) \<Longrightarrow>
   for_await eng h (matchesAsync regex string opts) = ([], Some global_flag_error_async)"
  by (simp add: for_await_def async_next_not_global)


lemma async_next_first_yield:
  assumes "global (h ! regex)" and "timeout opts = Some (Fin x)" and "0 < x"
    and "matchesWorker eng (source (h ! regex)) (flags (h ! regex)) string = w # rest"
    and "returns w = Inr (Some v)" and "\<not> x < cost w"
  shows "async_next eng h (matchesAsync regex string opts) =
     (Yield v, (matchesAsync regex string opts)
        \<lparr>ag_state := ASuspended rest (cost w) (Some ClearTimeout)
                       \<lparr>aborted = False, timer = Some (Fin x)\<rparr>\<rparr>)"
  using assms
  by (simp add: async_next_def matchesAsync_def handleAsyncTimeout_cases for_await_turn_def
      worker_next_def new_AbortController_def timer_fires_def)

text \<open>
  C4. On a pattern without the global flag, \<^verbatim>\<open>matches\<close> throws the configuration error
  (no iterable is returned, so no element is ever produced), and the generator of
  \<^verbatim>\<open>matchesAsync\<close> throws its configuration error at the first advance, having yielded
  nothing, and is completed afterwards. Neither depends on the options; the error is no
  timeout error and no \<^verbatim>\<open>AbortError\<close>, and it is thrown outside the \<^verbatim>\<open>try\<close> blocks, so
  nothing turns it into a default value.
\<close>

theorem C4_global_flag_required:
  "\<not> global (h ! regex) \<longrightarrow>
     matches h regex string mopts = Inl global_flag_error
     \<and> async_next eng h (matchesAsync regex string opts) =
         (Throw global_flag_error_async,
          (matchesAsync regex string opts)\<lparr>ag_state := ACompleted None\<rparr>)
     \<and> async_next eng h ((matchesAsync regex string opts)\<lparr>ag_state := ACompleted None\<rparr>) =
         (Done, (matchesAsync regex string opts)\<lparr>ag_state := ACompleted None\<rparr>)
     \<and> for_await eng h (matchesAsync regex string opts) = ([], Some global_flag_error_async)
     \<and> \<not> isTimeoutError global_flag_error
     \<and> name global_flag_error_async \<noteq> ''AbortError''"
  by (simp add: matches_not_global async_next_not_global for_await_not_global)
     (simp add: async_next_def global_flag_error_async_def)

text \<open>
  C4 at \<^verbatim>\<open>/test/\<close> and \<^verbatim>\<open>'test'\<close>, with \<^verbatim>\<open>throwOnTimeout\<close> unset and set.
\<close>

theorem C4_witness_no_global_flag:
  "matches [test_plain] 0 ''test'' \<lparr>timeout = Some (Fin 10), throwOnTimeout = False, matchTimeout = None\<rparr>
     = Inl global_flag_error
   \<and> matches [test_plain] 0 ''test'' \<lparr>timeout = Some (Fin 10), throwOnTimeout = True, matchTimeout = None\<rparr>
     = Inl global_flag_error
   \<and> for_await digits_engine [test_plain]
        (matchesAsync 0 ''test'' \<lparr>timeout = None, throwOnTimeout = False\<rparr>)
     = ([], Some global_flag_error_async)"
  using C4_global_flag_required [where h = "[test_plain]" and regex = 0 and string = "''test''"
      and mopts = "\<lparr>timeout = Some (Fin 10), throwOnTimeout = False, matchTimeout = None\<rparr>"
      and eng = digits_engine and opts = "\<lparr>timeout = None, throwOnTimeout = False\<rparr>"]
    C4_global_flag_required [where h = "[test_plain]" and regex = 0 and string = "''test''"
      and mopts = "\<lparr>timeout = Some (Fin 10), throwOnTimeout = True, matchTimeout = None\<rparr>"]
  by (simp add: test_plain_def global_def)

text \<open>
  C10. The call of \<^verbatim>\<open>matchesAsync\<close> gives a generator suspended at its start, whatever the
  flags of the pattern (the store is not read, and the call cannot throw). The first
  advance makes the global-flag check: without the flag it throws the configuration
  error, where \<^verbatim>\<open>matches\<close> throws at the call itself. With the flag, the first advance
  creates the controller, arms the timer (for a positive finite timeout) and takes the
  first result from the worker.
\<close>

theorem C10_matchesAsync_defers_to_first_advance:
  "matchesAsync regex string opts =
     \<lparr>ag_regex = regex, ag_string = string, ag_timeout = timeout opts,
      ag_throwOnTimeout = throwOnTimeout opts, ag_state = AStart\<rparr>
   \<and> (\<not> global (h ! regex) \<longrightarrow>
        async_next eng h (matchesAsync regex string opts) =
          (Throw global_flag_error_async,
           (matchesAsync regex string opts)\<lparr>ag_state := ACompleted None\<rparr>)
        \<and> matches h regex string mopts = Inl global_flag_error)
   \<and> (global (h ! regex) \<and> timeout opts = Some (Fin x) \<and> 0 < x
        \<and> matchesWorker eng (source (h ! regex)) (flags (h ! regex)) string = w # rest
        \<and> returns w = Inr (Some v) \<and> \<not> x < cost w \<longrightarrow>
        async_next eng h (matchesAsync regex string opts) =
          (Yield v, (matchesAsync regex string opts)
             \<lparr>ag_state := ASuspended rest (cost w) (Some ClearTimeout)
                            \<lparr>aborted = False, timer = Some (Fin x)\<rparr>\<rparr>))"
  using async_next_first_yield [of h regex opts x eng string w rest v]
  by (simp add: matches_not_global async_next_not_global) (simp add: matchesAsync_def)

text \<open>
  C10 at \<^verbatim>\<open>/test/\<close> (no global flag) and at \<^verbatim>\<open>/[0-9]+/g\<close> with a timeout of 1000.
\<close>

theorem C10_witness:
  "ag_state (matchesAsync 0 ''test'' \<lparr>timeout = None, throwOnTimeout = False\<rparr>) = AStart
   \<and> async_next digits_engine [test_plain]
        (matchesAsync 0 ''test'' \<lparr>timeout = None, throwOnTimeout = False\<rparr>) =
       (Throw global_flag_error_async,
        (matchesAsync 0 ''test'' \<lparr>timeout = None, throwOnTimeout = False\<rparr>)
          \<lparr>ag_state := ACompleted None\<rparr>)
   \<and> matches [test_plain] 0 ''test'' \<lparr>timeout = None, throwOnTimeout = False, matchTimeout = None\<rparr>
       = Inl global_flag_error
   \<and> fst (async_next digits_engine [digits_g]
        (matchesAsync 0 ''a1b22c333'' \<lparr>timeout = Some (Fin 1000), throwOnTimeout = False\<rparr>)) =
       Yield (digit_match ''1'' 1)"
  using C10_matchesAsync_defers_to_first_advance
      [where regex = 0 and string = "''test''" and opts = "\<lparr>timeout = None, throwOnTimeout = False\<rparr>"
        and h = "[test_plain]" and eng = digits_engine
        and mopts = "\<lparr>timeout = None, throwOnTimeout = False, matchTimeout = None\<rparr>"]
    C10_matchesAsync_defers_to_first_advance
      [where regex = 0 and string = "''a1b22c333''"
        and opts = "\<lparr>timeout = Some (Fin 1000), throwOnTimeout = False\<rparr>"
        and h = "[digits_g]" and eng = digits_engine and x = 1000
        and w = "\<lparr>returns = Inr (Some (digit_match ''1'' 1)), cost = 2\<rparr>"
        and rest = "tl (matchesWorker digits_engine ''[0-9]+'' ''g'' ''a1b22c333'')"
        and v = "digit_match ''1'' 1"]
  by (simp add: test_plain_def digits_g_def global_def matchesWorker_def new_RegExp_def
      digits_engine_def const_engine_def digit_steps_def digit_raw_def digit_match_def
      matchesAsync_def makeAsynchronousIterable_def)

text \<open>
  C8, as stated, at \<^verbatim>\<open>matches(/[0-9]+/g, 'a1b22c333', {timeout: 10})\<close>, where each of the
  three matches takes 3 ms of the budget: iterating the returned object a second time
  yields the three matches again, from the beginning and with the full budget of 10
  (with what the first pass left of the budget, the second pass would yield nothing).
\<close>

theorem C8_counterexample_second_iteration:
  "matches [digits_g] 0 ''a1b22c333'' \<lparr>timeout = Some (Fin 10), throwOnTimeout = False, matchTimeout = None\<rparr>
     = Inr \<lparr>it_regex = 0, it_string = ''a1b22c333'', it_timeout = Fin 10,
            it_matchTimeout = PosInf, it_throwOnTimeout = False\<rparr>
   \<and> fst (spread digits_engine [digits_g]
        \<lparr>it_regex = 0, it_string = ''a1b22c333'', it_timeout = Fin 10,
         it_matchTimeout = PosInf, it_throwOnTimeout = False\<rparr>)
      = ([digit_match ''1'' 1, digit_match ''22'' 3, digit_match ''333'' 6], None)
   \<and> fst (spread digits_engine
        (snd (spread digits_engine [digits_g]
           \<lparr>it_regex = 0, it_string = ''a1b22c333'', it_timeout = Fin 10,
            it_matchTimeout = PosInf, it_throwOnTimeout = False\<rparr>))
        \<lparr>it_regex = 0, it_string = ''a1b22c333'', it_timeout = Fin 10,
         it_matchTimeout = PosInf, it_throwOnTimeout = False\<rparr>)
      = ([digit_match ''1'' 1, digit_match ''22'' 3, digit_match ''333'' 6], None)"
  by code_simp


lemma async_return_disarms:
  "ag_state g = ASuspended ws clock (Some ClearTimeout) c \<Longrightarrow>
   ag_state (async_return g) = ACompleted (Some (c\<lparr>timer := None\<rparr>))"
  by (simp add: async_return_def run_cleanup_def)

lemma generator_next_return:
  "generator_next eng h (generator_return g) = (Done, generator_return g, h)"
  by (simp add: generator_next_def generator_return_def)

text \<open>
  C8, amended. For a pattern with the global flag, \<^verbatim>\<open>matches\<close> returns the closure of its
  arguments: the engine is not called (it is no argument of \<open>matches\<close>). Every
  \<^verbatim>\<open>[Symbol.iterator]()\<close> gives a new generator at its start, so every pass over the
  returned object clones the pattern again and runs the steps of the engine's iterator
  from the first one with the full total timeout. A pass is finite: it yields at most
  as many matches as the engine's iterator has steps, each yield leaving fewer steps. A
  generator is single-pass: when it is done or has thrown it is completed, and a
  completed generator only reports \<^verbatim>\<open>done\<close>. The consumer may stop early: after
  \<^verbatim>\<open>return()\<close> the generator is completed and the store is as it was.
\<close>

theorem C8_matches_iterable:
  "(global (h ! regex) \<longrightarrow>
      matches h regex string opts =
        Inr \<lparr>it_regex = regex, it_string = string,
             it_timeout = (case timeout opts of None \<Rightarrow> PosInf | Some t \<Rightarrow> t),
             it_matchTimeout = (case matchTimeout opts of None \<Rightarrow> PosInf | Some t \<Rightarrow> t),
             it_throwOnTimeout = throwOnTimeout opts\<rparr>)
   \<and> symbol_iterator it = \<lparr>closure = it, state = Start\<rparr>
   \<and> spread eng h it =
       (drain it (re_matchAll eng ((h ! it_regex it)\<lparr>lastIndex := 0\<rparr>) (it_string it))
          (it_timeout it),
        h @ [(h ! it_regex it)\<lparr>lastIndex := 0\<rparr>])
   \<and> length (fst (drain it ms r)) \<le> length ms
   \<and> (resume it ms r = (Yield m, st) \<longrightarrow>
        (\<exists>ms' r'. st = Suspended ms' r' \<and> length ms' < length ms))
   \<and> (resume it ms r = (Done, st) \<or> resume it ms r = (Throw e, st) \<longrightarrow> st = Completed)
   \<and> generator_next eng h \<lparr>closure = it, state = Completed\<rparr> =
       (Done, \<lparr>closure = it, state = Completed\<rparr>, h)
   \<and> generator_next eng h (generator_return g) = (Done, generator_return g, h)"
proof -
  have "resume it ms r = (Yield m, st) \<longrightarrow>
        (\<exists>ms' r'. st = Suspended ms' r' \<and> length ms' < length ms)"
    using resume_Yield_Suspended resume_Yield_shorter by blast
  moreover have "resume it ms r = (Done, st) \<or> resume it ms r = (Throw e, st) \<longrightarrow> st = Completed"
    using resume_not_Yield_Completed [of it ms r _ st] by auto
  ultimately show ?thesis
    by (simp add: matches_global symbol_iterator_def spread_drain length_drain
        generator_next_Completed generator_next_return)
qed

text \<open>
  C8 at \<^verbatim>\<open>/[0-9]+/g\<close> and \<^verbatim>\<open>'a1b22c333'\<close> with a total timeout of 10.
\<close>

theorem C8_witness_digits:
  "matches [digits_g] 0 ''a1b22c333'' \<lparr>timeout = Some (Fin 10), throwOnTimeout = False, matchTimeout = None\<rparr>
     = Inr \<lparr>it_regex = 0, it_string = ''a1b22c333'', it_timeout = Fin 10,
            it_matchTimeout = PosInf, it_throwOnTimeout = False\<rparr>
   \<and> resume \<lparr>it_regex = 0, it_string = ''a1b22c333'', it_timeout = Fin 10,
            it_matchTimeout = PosInf, it_throwOnTimeout = False\<rparr> digit_steps (Fin 10)
       = (Yield (digit_match ''1'' 1), Suspended (tl digit_steps) (Fin 7))
   \<and> length (tl digit_steps) < length digit_steps
   \<and> resume \<lparr>it_regex = 0, it_string = ''a1b22c333'', it_timeout = Fin 10,
            it_matchTimeout = PosInf, it_throwOnTimeout = False\<rparr> digit_steps (Fin 0)
       = (Done, Completed)"
  using C8_matches_iterable [where h = "[digits_g]" and regex = 0 and string = "''a1b22c333''"
      and opts = "\<lparr>timeout = Some (Fin 10), throwOnTimeout = False, matchTimeout = None\<rparr>"
      and it = "\<lparr>it_regex = 0, it_string = ''a1b22c333'', it_timeout = Fin 10,
            it_matchTimeout = PosInf, it_throwOnTimeout = False\<rparr>"
      and ms = digit_steps and r = "Fin 10" and m = "digit_match ''1'' 1"
      and st = "Suspended (tl digit_steps) (Fin 7)"]
    C8_matches_iterable [where it = "\<lparr>it_regex = 0, it_string = ''a1b22c333'', it_timeout = Fin 10,
            it_matchTimeout = PosInf, it_throwOnTimeout = False\<rparr>"
      and ms = digit_steps and r = "Fin 0" and st = Completed]
  by (simp add: digits_g_def global_def digit_steps_def digit_raw_def digit_match_def
      resume_def loop_turn_def catch_clause_def budget_exhausted_def normalizedTimeout_def
      normalizeTimeout_def trunc_def functionTimeout_def validateUint32_def resultToMatch_def)

section \<open>The shape of the match record\<close>

lemma resultToMatch_groups_length:
  "length (raw_elems raw) = Suc n \<Longrightarrow> length (groups (resultToMatch raw)) = n"
  by (simp add: resultToMatch_def)

lemma resultToMatch_namedGroups:
  "namedGroups (resultToMatch raw) = (case raw_groups raw of None \<Rightarrow> [] | Some g \<Rightarrow> g)"
  by (simp add: resultToMatch_def)

lemma firstMatch_no_timeout:
  assumes "timeout opts = None"
    and "returns (fst (re_exec eng ((h ! regex)\<lparr>lastIndex := 0\<rparr>) string)) = Inr res"
  shows "fst (firstMatch eng h regex string opts) = Inr (map_option resultToMatch res)"
  using assms by (simp add: firstMatch_result normalizeTimeout_def functionTimeout_def validateUint32_def)

text \<open>
  C6. The engine's raw result for a pattern with \<open>n\<close> capture groups is an array of
  \<open>n + 1\<close> elements (\<^verbatim>\<open>undefined\<close> where a group took no part), and its \<^verbatim>\<open>groups\<close> property
  is \<^verbatim>\<open>undefined\<close> when the pattern declares no named group and else an object with
  exactly the declared names. For such a raw result, the \<^verbatim>\<open>groups\<close> of the match record
  has length \<open>n\<close>, whichever entries are \<^verbatim>\<open>undefined\<close>, and the keys of \<^verbatim>\<open>namedGroups\<close> are
  exactly the declared names. \<^verbatim>\<open>firstMatch\<close> without a timeout returns the record made
  from the raw result of \<^verbatim>\<open>exec\<close> on the clone. In particular, for the pattern
  \<^verbatim>\<open>/(?<year>\d{4})-(?<month>\d{2})/\<close> and the string \<^verbatim>\<open>'2024-01-15'\<close>, on which \<^verbatim>\<open>exec\<close> gives
  \<^verbatim>\<open>['2024-01', '2024', '01']\<close> at index 0 with groups \<^verbatim>\<open>{year: '2024', month: '01'}\<close>,
  \<^verbatim>\<open>firstMatch\<close> returns the match with text \<^verbatim>\<open>'2024-01'\<close>, index 0, groups
  \<^verbatim>\<open>['2024', '01']\<close>, named groups \<^verbatim>\<open>{year: '2024', month: '01'}\<close> and that input.
\<close>

theorem C6_match_record_shape:
  "(length (raw_elems raw) = Suc n \<longrightarrow> length (groups (resultToMatch raw)) = n)
   \<and> (raw_groups raw = (if names = [] then None else Some g) \<and> map fst g = names \<longrightarrow>
        map fst (namedGroups (resultToMatch raw)) = names)
   \<and> (timeout opts = None
        \<and> returns (fst (re_exec eng ((h ! regex)\<lparr>lastIndex := 0\<rparr>) string)) = Inr (Some raw) \<longrightarrow>
        fst (firstMatch eng h regex string opts) = Inr (Some (resultToMatch raw)))
   \<and> (h ! regex = date_regexp
        \<and> returns (fst (re_exec eng date_regexp ''2024-01-15'')) = Inr (Some date_raw) \<longrightarrow>
        fst (firstMatch eng h regex ''2024-01-15'' \<lparr>timeout = None, throwOnTimeout = False\<rparr>) =
          Inr (Some \<lparr>match = Some ''2024-01'', index = 0, groups = [Some ''2024'', Some ''01''],
                     namedGroups = [(''year'', Some ''2024''), (''month'', Some ''01'')],
                     input = ''2024-01-15''\<rparr>))"
proof -
  have "h ! regex = date_regexp \<Longrightarrow> (h ! regex)\<lparr>lastIndex := 0\<rparr> = date_regexp"
    by (simp add: date_regexp_def)
  then show ?thesis
    by (auto simp: resultToMatch_groups_length resultToMatch_namedGroups firstMatch_no_timeout)
       (simp_all add: resultToMatch_def date_raw_def)
qed

text \<open>
  C6 at an engine that answers the date pattern as above.
\<close>

theorem C6_witness_date:
  "fst (firstMatch date_engine [date_regexp] 0 ''2024-01-15'' \<lparr>timeout = None, throwOnTimeout = False\<rparr>) =
     Inr (Some \<lparr>match = Some ''2024-01'', index = 0, groups = [Some ''2024'', Some ''01''],
                namedGroups = [(''year'', Some ''2024''), (''month'', Some ''01'')],
                input = ''2024-01-15''\<rparr>)
   \<and> length (groups (resultToMatch date_raw)) = 2
   \<and> map fst (namedGroups (resultToMatch date_raw)) = [''year'', ''month'']"
proof -
  have 1: "length (raw_elems date_raw) = Suc 2"
    by (simp add: date_raw_def)
  have 2: "raw_groups date_raw =
      (if [''year'', ''month''] = [] then None
       else Some [(''year'', Some ''2024''), (''month'', Some ''01'')])
    \<and> map fst [(''year'', Some ''2024''), (''month'', Some ''01'')] = [''year'', ''month'']"
    by (simp add: date_raw_def)
  have 3: "[date_regexp] ! 0 = date_regexp
    \<and> returns (fst (re_exec date_engine date_regexp ''2024-01-15'')) = Inr (Some date_raw)"
    by (simp add: date_engine_def const_engine_def)
  have 4: "timeout \<lparr>timeout = None, throwOnTimeout = False\<rparr> = None
    \<and> returns (fst (re_exec date_engine (([date_regexp] ! 0)\<lparr>lastIndex := 0\<rparr>) ''2024-01-15''))
        = Inr (Some date_raw)"
    by (simp add: date_engine_def const_engine_def)
  show ?thesis
    using 1 2 3 4
      C6_match_record_shape [where raw = date_raw and n = 2 and names = "[''year'', ''month'']"
        and g = "[(''year'', Some ''2024''), (''month'', Some ''01'')]"
        and eng = date_engine and h = "[date_regexp]" and regex = 0
        and opts = "\<lparr>timeout = None, throwOnTimeout = False\<rparr>"
        and string = "''2024-01-15''"]
    by (simp add: resultToMatch_def date_raw_def)
qed

section \<open>Named groups of a pattern that declares none\<close>

lemma fresh_regexp:
  "\<lparr>source = source r, flags = flags r, lastIndex = 0\<rparr> = r\<lparr>lastIndex := 0\<rparr>"
  by simp

lemma functionTimeout_Inr:
  "functionTimeout d f = Inr v \<Longrightarrow> returns f = Inr v"
  by (auto simp: functionTimeout_def validateUint32_def split: option.splits if_splits)

lemma resume_Yield_step:
  assumes "resume it ms r = (Yield m, st)"
  shows "\<exists>a rest raw. ms = a # rest \<and> returns (step a) = Inr (Some raw) \<and> m = resultToMatch raw
           \<and> st = Suspended rest (js_minus r (Math_ceil (Fin (elapsed a))))"
proof (cases ms)
  case Nil
  with assms show ?thesis
    by (auto simp: resume_def catch_clause_def loop_turn_def split: if_splits)
next
  case (Cons a rest)
  with assms show ?thesis
    by (auto simp: resume_def catch_clause_def loop_turn_def Let_def
        split: if_splits sum.splits option.splits dest: functionTimeout_Inr)
qed

lemma drain_provenance:
  "m \<in> set (fst (drain it ms r)) \<Longrightarrow>
   \<exists>a \<in> set ms. \<exists>raw. returns (step a) = Inr (Some raw) \<and> m = resultToMatch raw"
proof (induction it ms r rule: drain.induct)
  case (1 it ms r)
  obtain x st where rs: "resume it ms r = (x, st)"
    by (cases "resume it ms r")
  show ?case
  proof (cases x)
    case (Yield m')
    then obtain a rest raw where ms: "ms = a # rest"
      and raw: "returns (step a) = Inr (Some raw)" "m' = resultToMatch raw"
      and st: "st = Suspended rest (js_minus r (Math_ceil (Fin (elapsed a))))"
      using rs resume_Yield_step by blast
    have d: "fst (drain it ms r) =
        m' # fst (drain it rest (js_minus r (Math_ceil (Fin (elapsed a)))))"
      by (subst drain.simps) (simp add: rs Yield st case_prod_beta)
    show ?thesis
    proof (cases "m = m'")
      case True
      with ms raw show ?thesis by auto
    next
      case False
      with "1.prems" d
      have "m \<in> set (fst (drain it rest (js_minus r (Math_ceil (Fin (elapsed a))))))"
        by simp
      then have "\<exists>a \<in> set rest. \<exists>raw. returns (step a) = Inr (Some raw) \<and> m = resultToMatch raw"
        using "1.IH" rs Yield st by simp
      with ms show ?thesis by auto
    qed
  next
    case Done
    with "1.prems" rs show ?thesis
      by (subst (asm) drain.simps) simp
  next
    case (Throw e)
    with "1.prems" rs show ?thesis
      by (subst (asm) drain.simps) simp
  qed
qed

lemma for_await_turn_Yield:
  assumes "for_await_turn g ws clock cl c = (Yield m, st)"
  shows "\<exists>w rest. ws = w # rest \<and> returns w = Inr (Some m)
           \<and> st = ASuspended rest (clock + cost w) cl c"
proof (cases ws)
  case Nil
  with assms show ?thesis
    by (auto simp: for_await_turn_def worker_next_def handleAsyncError_def
        split: if_splits sum.splits)
next
  case (Cons w rest)
  with assms show ?thesis
    by (auto simp: for_await_turn_def worker_next_def handleAsyncError_def
        split: if_splits sum.splits option.splits)
qed

lemma adrain_provenance:
  "m \<in> set (fst (adrain g ws clock cl c)) \<Longrightarrow> \<exists>w \<in> set ws. returns w = Inr (Some m)"
proof (induction g ws clock cl c rule: adrain.induct)
  case (1 g ws clock cl c)
  obtain x st where rs: "for_await_turn g ws clock cl c = (x, st)"
    by (cases "for_await_turn g ws clock cl c")
  show ?case
  proof (cases x)
    case (Yield m')
    then obtain w rest where ws: "ws = w # rest" and w: "returns w = Inr (Some m')"
      and st: "st = ASuspended rest (clock + cost w) cl c"
      using rs for_await_turn_Yield by blast
    have d: "fst (adrain g ws clock cl c) = m' # fst (adrain g rest (clock + cost w) cl c)"
      by (subst adrain.simps) (simp add: rs Yield st case_prod_beta)
    show ?thesis
    proof (cases "m = m'")
      case True
      with ws w show ?thesis by auto
    next
      case False
      with "1.prems" d have "m \<in> set (fst (adrain g rest (clock + cost w) cl c))"
        by simp
      then have "\<exists>w \<in> set rest. returns w = Inr (Some m)"
        using "1.IH" rs Yield st by simp
      with ws show ?thesis by auto
    qed
  next
    case Done
    with "1.prems" rs show ?thesis
      by (subst (asm) adrain.simps) simp
  next
    case (Throw e)
    with "1.prems" rs show ?thesis
      by (subst (asm) adrain.simps) simp
  qed
qed

lemma makeAsynchronous_simps [simp]:
  "returns (makeAsynchronous eng f) = returns f"
  "cost (makeAsynchronous eng f) = worker_startup eng + cost f"
  by (simp_all add: makeAsynchronous_def)

lemma makeAsynchronousIterable_simps [simp]:
  "makeAsynchronousIterable eng [] = []"
  "makeAsynchronousIterable eng (w # rest) = w\<lparr>cost := worker_startup eng + cost w\<rparr> # rest"
  by (simp_all add: makeAsynchronousIterable_def)

lemma makeAsynchronousIterable_returns:
  "w \<in> set (makeAsynchronousIterable eng ws) \<Longrightarrow> \<exists>w' \<in> set ws. returns w = returns w'"
  by (cases ws) auto

lemma matchesWorker_map:
  "matchesWorker eng src fl s =
     makeAsynchronousIterable eng
       (map (\<lambda>a. \<lparr>returns = map_sum id (map_option resultToMatch) (returns (step a)),
                  cost = cost (step a)\<rparr>)
         (re_matchAll eng \<lparr>source = src, flags = fl, lastIndex = 0\<rparr> s))"
  unfolding matchesWorker_def new_RegExp_def
  by (auto simp: resultToMatch_def intro!: arg_cong [where f = "makeAsynchronousIterable eng"]
      split: sum.splits option.splits)

lemma firstMatchWorker_map:
  "firstMatchWorker eng src fl s =
     makeAsynchronous eng
       \<lparr>returns = map_sum id (map_option resultToMatch)
                    (returns (fst (re_exec eng \<lparr>source = src, flags = fl, lastIndex = 0\<rparr> s))),
        cost = cost (fst (re_exec eng \<lparr>source = src, flags = fl, lastIndex = 0\<rparr> s))\<rparr>"
  by (auto simp: firstMatchWorker_def new_RegExp_def RegExp_exec_def resultToMatch_def
      split: sum.splits option.splits prod.splits)


lemma map_sum_option_Some:
  assumes "map_sum id (map_option f) x = Inr (Some m)"
  shows "\<exists>raw. x = Inr (Some raw) \<and> m = f raw"
proof (cases x)
  case (Inl e)
  with assms show ?thesis by simp
next
  case (Inr b)
  with assms show ?thesis by (cases b) auto
qed

lemma matchesWorker_provenance:
  assumes "w \<in> set (matchesWorker eng src fl s)" and "returns w = Inr (Some m)"
  shows "\<exists>a \<in> set (re_matchAll eng \<lparr>source = src, flags = fl, lastIndex = 0\<rparr> s).
           \<exists>raw. returns (step a) = Inr (Some raw) \<and> m = resultToMatch raw"
proof -
  from assms(1) obtain a
    where a: "a \<in> set (re_matchAll eng \<lparr>source = src, flags = fl, lastIndex = 0\<rparr> s)"
      and w: "returns w = map_sum id (map_option resultToMatch) (returns (step a))"
    unfolding matchesWorker_map by (auto dest!: makeAsynchronousIterable_returns)
  from w assms(2) obtain raw where "returns (step a) = Inr (Some raw)" "m = resultToMatch raw"
    using map_sum_option_Some [of resultToMatch "returns (step a)" m] by auto
  with a show ?thesis by blast
qed

lemma withAsyncTimeout_Some:
  assumes "fst (withAsyncTimeout f t thr None) = Inr (Some m)"
  shows "returns f = Inr (Some m)"
  using assms
  by (auto simp: withAsyncTimeout_def worker_call_def handleAsyncError_def
      split: prod.splits sum.splits if_splits)

text \<open>
  C9. When the raw result has no \<^verbatim>\<open>groups\<close> object, \<^verbatim>\<open>namedGroups\<close> of the match record
  is the empty object. Hence, for a pattern without named groups, every match returned
  by \<^verbatim>\<open>firstMatch\<close>, yielded by an iteration of \<^verbatim>\<open>matches\<close>, returned by
  \<^verbatim>\<open>firstMatchAsync\<close> or yielded by \<^verbatim>\<open>matchesAsync\<close> has the empty object as its
  \<^verbatim>\<open>namedGroups\<close> (the field of the record is an object, never \<^verbatim>\<open>undefined\<close>).
\<close>

theorem C9_namedGroups_empty_object:
  "(raw_groups raw = None \<longrightarrow> namedGroups (resultToMatch raw) = [])
   \<and> (no_named_groups eng ((h ! regex)\<lparr>lastIndex := 0\<rparr>) string \<longrightarrow>
        (fst (firstMatch eng h regex string opts) = Inr (Some m1) \<longrightarrow> namedGroups m1 = [])
        \<and> (it_regex it = regex \<and> it_string it = string
             \<and> m2 \<in> set (fst (fst (spread eng h it))) \<longrightarrow> namedGroups m2 = [])
        \<and> (fst (firstMatchAsync eng h regex string opts) = Inr (Some m3) \<longrightarrow> namedGroups m3 = [])
        \<and> (m4 \<in> set (fst (for_await eng h (matchesAsync regex string opts))) \<longrightarrow>
             namedGroups m4 = []))"
proof -
  let ?r = "(h ! regex)\<lparr>lastIndex := 0\<rparr>"
  have raw: "raw_groups raw = None \<Longrightarrow> namedGroups (resultToMatch raw) = []" for raw
    by (simp add: resultToMatch_def)
  {
    assume nn: "no_named_groups eng ?r string"
    then have ex: "returns (fst (re_exec eng ?r string)) = Inr (Some x) \<Longrightarrow> raw_groups x = None"
      for x
      by (simp add: no_named_groups_def yields_no_named_groups_def)
    from nn have all: "a \<in> set (re_matchAll eng ?r string) \<Longrightarrow>
        returns (step a) = Inr (Some x) \<Longrightarrow> raw_groups x = None" for a x
      by (auto simp: no_named_groups_def yields_no_named_groups_def list_all_iff)
    have 1: "namedGroups m1 = []" if "fst (firstMatch eng h regex string opts) = Inr (Some m1)"
    proof -
      from that obtain x where "returns (fst (re_exec eng ?r string)) = Inr (Some x)"
        and "m1 = resultToMatch x"
        by (auto simp: firstMatch_result split: sum.splits if_splits dest: functionTimeout_Inr)
      with ex raw show ?thesis by simp
    qed
    have 2: "namedGroups m2 = []"
      if "it_regex it = regex" "it_string it = string" "m2 \<in> set (fst (fst (spread eng h it)))"
    proof -
      from that have "m2 \<in> set (fst (drain it (re_matchAll eng ?r string) (it_timeout it)))"
        by (simp add: spread_drain)
      then obtain a x where "a \<in> set (re_matchAll eng ?r string)"
        "returns (step a) = Inr (Some x)" "m2 = resultToMatch x"
        using drain_provenance by blast
      with all raw show ?thesis by simp
    qed
    have 3: "namedGroups m3 = []" if "fst (firstMatchAsync eng h regex string opts) = Inr (Some m3)"
    proof -
      from that have "returns (firstMatchWorker eng (source (h ! regex)) (flags (h ! regex)) string)
          = Inr (Some m3)"
        unfolding firstMatchAsync_def by (rule withAsyncTimeout_Some)
      then obtain x where "returns (fst (re_exec eng ?r string)) = Inr (Some x)"
        and "m3 = resultToMatch x"
        using map_sum_option_Some [of resultToMatch "returns (fst (re_exec eng ?r string))" m3]
        by (auto simp: firstMatchWorker_map fresh_regexp)
      with ex raw show ?thesis by simp
    qed
    have 4: "namedGroups m4 = []"
      if "m4 \<in> set (fst (for_await eng h (matchesAsync regex string opts)))"
    proof -
      let ?g = "matchesAsync regex string opts"
      let ?ws = "matchesWorker eng (source (h ! regex)) (flags (h ! regex)) string"
      have "\<exists>w \<in> set ?ws. returns w = Inr (Some m4)"
      proof (cases "global (h ! regex)")
        case False
        with that show ?thesis by (simp add: for_await_not_global)
      next
        case True
        obtain cl c1 where hc: "handleAsyncTimeout new_AbortController (timeout opts) = (cl, c1)"
          by (cases "handleAsyncTimeout new_AbortController (timeout opts)")
        obtain x st where fa: "for_await_turn ?g ?ws 0 cl c1 = (x, st)"
          by (cases "for_await_turn ?g ?ws 0 cl c1")
        have an: "async_next eng h ?g = (x, ?g\<lparr>ag_state := st\<rparr>)"
          using True hc fa by (simp add: async_next_def matchesAsync_def)
        show ?thesis
        proof (cases x)
          case (Yield m')
          then obtain w rest where ws: "?ws = w # rest" and w: "returns w = Inr (Some m')"
            and st: "st = ASuspended rest (0 + cost w) cl c1"
            using fa for_await_turn_Yield by blast
          have "fst (for_await eng h ?g) =
              m' # fst (adrain (?g\<lparr>ag_state := st\<rparr>) rest (0 + cost w) cl c1)"
            by (simp add: for_await_def an Yield st case_prod_beta)
          with that have "m4 = m' \<or> m4 \<in> set (fst (adrain (?g\<lparr>ag_state := st\<rparr>) rest (0 + cost w) cl c1))"
            by simp
          then show ?thesis
          proof
            assume "m4 = m'"
            with ws w show ?thesis by (metis list.set_intros(1))
          next
            assume "m4 \<in> set (fst (adrain (?g\<lparr>ag_state := st\<rparr>) rest (0 + cost w) cl c1))"
            then obtain w' where "w' \<in> set rest" "returns w' = Inr (Some m4)"
              using adrain_provenance by blast
            with ws show ?thesis by (metis list.set_intros(2))
          qed
        next
          case Done
          with that an show ?thesis by (simp add: for_await_def)
        next
          case (Throw e)
          with that an show ?thesis by (simp add: for_await_def)
        qed
      qed
      then obtain w where "w \<in> set ?ws" "returns w = Inr (Some m4)"
        by blast
      then obtain a x where "a \<in> set (re_matchAll eng ?r string)"
        "returns (step a) = Inr (Some x)" "m4 = resultToMatch x"
        using matchesWorker_provenance [of w eng "source (h ! regex)" "flags (h ! regex)" string m4]
        by (auto simp: fresh_regexp)
      with all raw show ?thesis by simp
    qed
    note 1 2 3 4
  }
  with raw show ?thesis by blast
qed


text \<open>
  C9 at \<^verbatim>\<open>/[0-9]+/g\<close> and \<^verbatim>\<open>'a1b22c333'\<close>, in the four shapes.
\<close>

theorem C9_witness_digits:
  "no_named_groups digits_engine (([digits_g] ! 0)\<lparr>lastIndex := 0\<rparr>) ''a1b22c333''
   \<and> fst (firstMatch digits_engine [digits_g] 0 ''a1b22c333''
          \<lparr>timeout = None, throwOnTimeout = False\<rparr>) = Inr (Some (digit_match ''1'' 1))
   \<and> digit_match ''22'' 3 \<in> set (fst (fst (spread digits_engine [digits_g]
          \<lparr>it_regex = 0, it_string = ''a1b22c333'', it_timeout = PosInf,
           it_matchTimeout = PosInf, it_throwOnTimeout = False\<rparr>)))
   \<and> fst (firstMatchAsync digits_engine [digits_g] 0 ''a1b22c333''
          \<lparr>timeout = None, throwOnTimeout = False\<rparr>) = Inr (Some (digit_match ''1'' 1))
   \<and> digit_match ''333'' 6 \<in> set (fst (for_await digits_engine [digits_g]
          (matchesAsync 0 ''a1b22c333'' \<lparr>timeout = None, throwOnTimeout = False\<rparr>)))
   \<and> namedGroups (digit_match ''1'' 1) = []
   \<and> namedGroups (digit_match ''22'' 3) = []
   \<and> namedGroups (digit_match ''333'' 6) = []"
proof -
  have 0: "no_named_groups digits_engine (([digits_g] ! 0)\<lparr>lastIndex := 0\<rparr>) ''a1b22c333''"
    by code_simp
  have 1: "fst (firstMatch digits_engine [digits_g] 0 ''a1b22c333''
          \<lparr>timeout = None, throwOnTimeout = False\<rparr>) = Inr (Some (digit_match ''1'' 1))"
    by code_simp
  have 2: "digit_match ''22'' 3 \<in> set (fst (fst (spread digits_engine [digits_g]
          \<lparr>it_regex = 0, it_string = ''a1b22c333'', it_timeout = PosInf,
           it_matchTimeout = PosInf, it_throwOnTimeout = False\<rparr>)))"
    by code_simp
  have 3: "fst (firstMatchAsync digits_engine [digits_g] 0 ''a1b22c333''
          \<lparr>timeout = None, throwOnTimeout = False\<rparr>) = Inr (Some (digit_match ''1'' 1))"
    by code_simp
  have 4: "digit_match ''333'' 6 \<in> set (fst (for_await digits_engine [digits_g]
          (matchesAsync 0 ''a1b22c333'' \<lparr>timeout = None, throwOnTimeout = False\<rparr>)))"
    by code_simp
  have 5: "raw_groups (digit_raw ''1'' 1) = None"
    by (simp add: digit_raw_def)
  show ?thesis
    using 0 1 2 3 4 5
      C9_namedGroups_empty_object [where raw = "digit_raw ''1'' 1"
        and eng = digits_engine and h = "[digits_g]" and regex = 0
        and string = "''a1b22c333''" and opts = "\<lparr>timeout = None, throwOnTimeout = False\<rparr>"
        and ?m1.0 = "digit_match ''1'' 1" and ?m2.0 = "digit_match ''22'' 3"
        and ?m3.0 = "digit_match ''1'' 1" and ?m4.0 = "digit_match ''333'' 6"
        and it = "\<lparr>it_regex = 0, it_string = ''a1b22c333'', it_timeout = PosInf,
           it_matchTimeout = PosInf, it_throwOnTimeout = False\<rparr>"]
    by simp
qed

section \<open>The caller's pattern is not written\<close>

lemma isMatch_store:
  "snd (isMatch eng h regex string opts) =
     h @ [(h ! regex)\<lparr>lastIndex := snd (re_test eng ((h ! regex)\<lparr>lastIndex := 0\<rparr>) string)\<rparr>]"
  by (simp add: isMatch_def structuredClone_def RegExp_test_def split: prod.splits)

lemma firstMatch_store:
  "snd (firstMatch eng h regex string opts) =
     h @ [(h ! regex)\<lparr>lastIndex := snd (re_exec eng ((h ! regex)\<lparr>lastIndex := 0\<rparr>) string)\<rparr>]"
  by (simp add: firstMatch_def structuredClone_def RegExp_exec_def split: prod.splits)

lemma generator_next_store:
  "snd (snd (generator_next eng h g)) = h
   \<or> snd (snd (generator_next eng h g)) = h @ [(h ! it_regex (closure g))\<lparr>lastIndex := 0\<rparr>]"
  by (simp add: generator_next_def structuredClone_def split: prod.splits gen_state.splits)

lemma perform_store: "\<exists>xs. perform eng h c = h @ xs"
proof (cases c)
  case (IsMatch regex string opts)
  then show ?thesis using isMatch_store [of eng h regex string opts] by auto
next
  case (FirstMatch regex string opts)
  then show ?thesis using firstMatch_store [of eng h regex string opts] by auto
next
  case (Matches regex string opts)
  then show ?thesis by (cases "matches h regex string opts") (simp_all add: spread_drain)
qed simp_all

lemma foldl_perform_store: "\<exists>xs. foldl (perform eng) h calls = h @ xs"
proof (induction calls arbitrary: h)
  case Nil
  then show ?case by simp
next
  case (Cons c calls)
  obtain xs where 1: "perform eng h c = h @ xs"
    using perform_store by blast
  obtain ys where "foldl (perform eng) (perform eng h c) calls = perform eng h c @ ys"
    using Cons.IH by blast
  with 1 show ?case by simp
qed

lemma async_reads_source_flags:
  assumes "source (h ! regex) = source (h' ! regex)" and "flags (h ! regex) = flags (h' ! regex)"
  shows "isMatchAsync eng h regex string opts = isMatchAsync eng h' regex string opts"
    and "firstMatchAsync eng h regex string opts = firstMatchAsync eng h' regex string opts"
    and "async_next eng h (matchesAsync regex string opts) =
         async_next eng h' (matchesAsync regex string opts)"
    and "for_await eng h (matchesAsync regex string opts) =
         for_await eng h' (matchesAsync regex string opts)"
  using assms
  by (simp_all add: isMatchAsync_def firstMatchAsync_def async_next_def for_await_def
      matchesAsync_def global_def)

text \<open>
  C7. \<^verbatim>\<open>isMatch\<close> and \<^verbatim>\<open>firstMatch\<close> leave the store as it was, with one new object
  added, the clone on which the engine worked; an advance of a generator of \<^verbatim>\<open>matches\<close>
  leaves the store as it was or adds the clone (at the first advance), and so does a
  whole pass. Therefore after any sequence of public operations, on any patterns and in
  any order, every object the caller had is as it was; in particular the pattern and
  its \<^verbatim>\<open>lastIndex\<close>. The asynchronous operations give the same results on two stores in
  which the pattern has the same source text and flags: they read nothing else of it,
  and write nothing.
\<close>

theorem C7_caller_pattern_not_mutated:
  "snd (isMatch eng h regex string opts) =
     h @ [(h ! regex)\<lparr>lastIndex := snd (re_test eng ((h ! regex)\<lparr>lastIndex := 0\<rparr>) string)\<rparr>]
   \<and> snd (firstMatch eng h regex string opts) =
     h @ [(h ! regex)\<lparr>lastIndex := snd (re_exec eng ((h ! regex)\<lparr>lastIndex := 0\<rparr>) string)\<rparr>]
   \<and> (snd (snd (generator_next eng h g)) = h
       \<or> snd (snd (generator_next eng h g)) = h @ [(h ! it_regex (closure g))\<lparr>lastIndex := 0\<rparr>])
   \<and> snd (spread eng h it) = h @ [(h ! it_regex it)\<lparr>lastIndex := 0\<rparr>]
   \<and> take (length h) (foldl (perform eng) h calls) = h
   \<and> (regex < length h \<longrightarrow>
        foldl (perform eng) h calls ! regex = h ! regex
        \<and> lastIndex (foldl (perform eng) h calls ! regex) = lastIndex (h ! regex))
   \<and> (source (h ! regex) = source (h' ! regex) \<and> flags (h ! regex) = flags (h' ! regex) \<longrightarrow>
        isMatchAsync eng h regex string opts = isMatchAsync eng h' regex string opts
        \<and> firstMatchAsync eng h regex string opts = firstMatchAsync eng h' regex string opts
        \<and> async_next eng h (matchesAsync regex string opts) =
            async_next eng h' (matchesAsync regex string opts)
        \<and> for_await eng h (matchesAsync regex string opts) =
            for_await eng h' (matchesAsync regex string opts))"
proof -
  obtain xs where xs: "foldl (perform eng) h calls = h @ xs"
    using foldl_perform_store by blast
  then have "take (length h) (foldl (perform eng) h calls) = h"
    by simp
  moreover from xs have "regex < length h \<Longrightarrow> foldl (perform eng) h calls ! regex = h ! regex"
    by (simp add: nth_append)
  ultimately show ?thesis
    using generator_next_store [of eng h g] async_reads_source_flags [of h regex h' eng string opts]
    by (simp add: isMatch_store firstMatch_store spread_drain)
qed


text \<open>
  C7 at \<^verbatim>\<open>/[0-9]+/g\<close> with \<^verbatim>\<open>lastIndex = 4\<close>, after four synchronous calls on it.
\<close>

theorem C7_witness_lastIndex_kept:
  "lastIndex (foldl (perform digits_engine) [digits_g] some_calls ! 0) = 4
   \<and> foldl (perform digits_engine) [digits_g] some_calls ! 0 = digits_g
   \<and> isMatchAsync digits_engine [digits_g] 0 ''a1b22c333'' \<lparr>timeout = None, throwOnTimeout = False\<rparr>
       = isMatchAsync digits_engine [digits_g\<lparr>lastIndex := 0\<rparr>] 0 ''a1b22c333''
           \<lparr>timeout = None, throwOnTimeout = False\<rparr>"
proof -
  have 1: "(0::nat) < length [digits_g]"
    by simp
  have 2: "source ([digits_g] ! 0) = source ([digits_g\<lparr>lastIndex := 0\<rparr>] ! 0)
      \<and> flags ([digits_g] ! 0) = flags ([digits_g\<lparr>lastIndex := 0\<rparr>] ! 0)"
    by simp
  have 3: "lastIndex ([digits_g] ! 0) = 4" "[digits_g] ! 0 = digits_g"
    by (simp_all add: digits_g_def)
  show ?thesis
    using 1 2 3
      C7_caller_pattern_not_mutated [where h = "[digits_g]" and regex = 0
        and eng = digits_engine and calls = some_calls
        and h' = "[digits_g\<lparr>lastIndex := 0\<rparr>]" and string = "''a1b22c333''"
        and opts = "\<lparr>timeout = None, throwOnTimeout = False\<rparr>"]
    by metis
qed

section \<open>The two regimes give the same results\<close>









lemma total_elapsed_Cons [simp]:
  "total_elapsed (a # ms) = \<lceil>elapsed a\<rceil> + total_elapsed ms"
  by (simp add: total_elapsed_def)


lemma Math_min_PosInf [simp]: "Math_min PosInf mt = mt"
  by (cases mt) simp_all














end
